theory Spec2Isabelle
  imports Complex_Main
begin

section \<open>The LLaMA pretraining benchmark script\<close>

text \<open>
  A shallow embedding of \<^verbatim>\<open>examples/language/llama/benchmark.py\<close>. The script is
  glue code around an external training framework: it parses the command line, builds a
  plugin, a synthetic dataset, a model and a performance evaluator, and drives the
  training steps. The model below keeps the control flow of \<^verbatim>\<open>main\<close> and records
  every call into the framework as an event of a trace, in program order.

  Python integers are \<open>int\<close>. Floating-point command-line values and wall-clock
  timestamps are modelled by exact rationals.
\<close>

subsection \<open>Values handed to external constructors\<close>

text \<open>Keyword arguments are kept as written at the call site, in order.\<close>

datatype pyval =
    VNone
  | VBool bool
  | VInt int
  | VFloat rat
  | VStr string
  | VName string
  | VList "pyval list"
  | VObj string "(string \<times> pyval) list"

type_synonym kwargs = "(string \<times> pyval) list"

subsection \<open>Command-line arguments\<close>

text \<open>One field per \<^verbatim>\<open>parser.add_argument\<close> (lines 53--80).\<close>

record args =
  config :: string
  plugin :: string
  batch_size :: int
  num_steps :: int
  ignore_steps :: int
  grad_checkpoint :: bool
  max_length :: int
  warmup_ratio :: rat
  memory_limit :: "int option"
  xformers :: bool
  shard_param_frac :: rat
  offload_optim_frac :: rat
  offload_param_frac :: rat
  tp :: int
  extra_dp :: int
  pp :: int
  mbs :: int
  zero :: int
  custom_ckpt :: bool
  profile :: bool

text \<open>The defaults of the parser.\<close>

definition default_args :: args where
  "default_args =
     \<lparr> config = ''7b'', plugin = ''gemini'', batch_size = 2, num_steps = 5,
       ignore_steps = 2, grad_checkpoint = False, max_length = 4096,
       warmup_ratio = 4 / 5, memory_limit = None, xformers = False,
       shard_param_frac = 1, offload_optim_frac = 0, offload_param_frac = 0,
       tp = 1, extra_dp = 1, pp = 1, mbs = 1, zero = 0, custom_ckpt = False,
       profile = False \<rparr>"

text \<open>The \<^verbatim>\<open>choices\<close> of \<^verbatim>\<open>--plugin\<close> (line 57).\<close>

definition plugin_choices :: "string list" where
  "plugin_choices = [''gemini'', ''gemini_auto'', ''fsdp'', ''fsdp_cpu'', ''3d'', ''3d_cpu'']"

subsection \<open>Errors\<close>

text \<open>
  \<open>ArgparseInvalidChoice\<close> is argparse's exit on a value outside \<^verbatim>\<open>choices\<close>
  (usage and an "invalid choice" message naming the value, exit status 2).
  \<open>ValueError\<close> is the script's own \<^verbatim>\<open>raise\<close> (line 190). \<open>ExternalError\<close> is
  an exception raised inside the framework and passed on unchanged.
  \<open>ZeroDivisionError\<close> is an undefined throughput figure.
\<close>

datatype error =
    ArgparseInvalidChoice string string
  | ValueError string
  | ExternalError string
  | ZeroDivisionError

definition parse_args :: "args \<Rightarrow> error + args" where
  "parse_args a =
     (if plugin a \<in> set plugin_choices then Inr a
      else Inl (ArgparseInvalidChoice ''-p/--plugin'' (plugin a)))"

subsection \<open>Plugins\<close>

datatype plugin_class = GeminiPlugin | TorchFSDPPlugin | HybridParallelPlugin

datatype plugin_obj = Plugin (cls: plugin_class) (plugin_kwargs: kwargs)

definition MixedPrecision_fp16 :: pyval where
  "MixedPrecision_fp16 =
     VObj ''MixedPrecision''
       [(''param_dtype'', VName ''torch.float16''),
        (''reduce_dtype'', VName ''torch.float16''),
        (''buffer_dtype'', VName ''torch.float16'')]"

text \<open>Lines 90--99: the extra keyword arguments of the \<^verbatim>\<open>3d\<close> plugin.\<close>

definition hybrid_kwargs :: "args \<Rightarrow> kwargs" where
  "hybrid_kwargs a =
     (if custom_ckpt a then
        [(''gradient_checkpoint_config'',
            VObj ''PipelineGradientCheckpointConfig''
              [(''num_ckpt_layers_per_stage'', VList [VInt 19, VInt 19, VInt 19, VInt 13])]),
         (''num_layers_per_stage'', VList [VInt 19, VInt 20, VInt 20, VInt 21])]
      else [])"

text \<open>
  Lines 104--190: the \<^verbatim>\<open>if\<close>/\<^verbatim>\<open>elif\<close> chain on \<^verbatim>\<open>args.plugin\<close>.
  \<^verbatim>\<open>use_empty_init\<close> is the constant \<^verbatim>\<open>True\<close>, and \<^verbatim>\<open>empty_init()\<close>
  is a call, whose value is \<^verbatim>\<open>None\<close>. The argument \<open>cuda\<close> is
  \<^verbatim>\<open>torch.cuda.is_available()\<close>.
\<close>

definition select_plugin :: "bool \<Rightarrow> args \<Rightarrow> error + plugin_obj" where
  "select_plugin cuda a =
     (let use_empty_init = True in
      if plugin a = ''gemini'' then
        Inr (Plugin GeminiPlugin
          [(''precision'', VStr ''bf16''),
           (''shard_param_frac'', VFloat (shard_param_frac a)),
           (''offload_optim_frac'', VFloat (offload_optim_frac a)),
           (''offload_param_frac'', VFloat (offload_param_frac a)),
           (''tp_size'', VInt (tp a)),
           (''extra_dp_size'', VInt (extra_dp a)),
           (''enable_fused_normalization'', VBool cuda),
           (''enable_flash_attention'', VBool (xformers a)),
           (''max_prefetch'', VInt 10)])
      else if plugin a = ''gemini_auto'' then
        Inr (Plugin GeminiPlugin
          [(''placement_policy'', VStr ''auto''),
           (''precision'', VStr ''bf16''),
           (''warmup_non_model_data_ratio'', VFloat (warmup_ratio a)),
           (''tp_size'', VInt (tp a)),
           (''extra_dp_size'', VInt (extra_dp a)),
           (''enable_fused_normalization'', VBool cuda),
           (''enable_flash_attention'', VBool (xformers a))])
      else if plugin a = ''fsdp'' then
        (if use_empty_init then
           Inr (Plugin TorchFSDPPlugin
             [(''mixed_precision'', MixedPrecision_fp16),
              (''param_init_fn'', VNone)])
         else
           Inr (Plugin TorchFSDPPlugin
             [(''mixed_precision'', MixedPrecision_fp16)]))
      else if plugin a = ''fsdp_cpu'' then
        (if use_empty_init then
           Inr (Plugin TorchFSDPPlugin
             [(''mixed_precision'', MixedPrecision_fp16),
              (''cpu_offload'', VObj ''CPUOffload'' [(''offload_params'', VBool True)]),
              (''param_init_fn'', VNone)])
         else
           Inr (Plugin TorchFSDPPlugin
             [(''mixed_precision'', MixedPrecision_fp16),
              (''cpu_offload'', VObj ''CPUOffload'' [(''offload_params'', VBool True)])]))
      else if plugin a = ''3d'' then
        Inr (Plugin HybridParallelPlugin
          ([(''tp_size'', VInt (tp a)),
            (''pp_size'', VInt (pp a)),
            (''zero_stage'', VInt (zero a)),
            (''enable_fused_normalization'', VBool cuda),
            (''enable_flash_attention'', VBool (xformers a)),
            (''microbatch_size'', VInt (mbs a)),
            (''precision'', VStr ''bf16''),
            (''dp_outside'', VBool False)] @ hybrid_kwargs a))
      else if plugin a = ''3d_cpu'' then
        Inr (Plugin HybridParallelPlugin
          [(''tp_size'', VInt (tp a)),
           (''pp_size'', VInt (pp a)),
           (''zero_stage'', VInt (zero a)),
           (''cpu_offload'', VBool True),
           (''enable_fused_normalization'', VBool cuda),
           (''enable_flash_attention'', VBool (xformers a)),
           (''microbatch_size'', VInt (mbs a)),
           (''initial_scale'', VInt (2 ^ 8)),
           (''precision'', VStr ''bf16'')])
      else Inl (ValueError (''Unknown plugin '' @ plugin a)))"

subsection \<open>Model configurations, datasets and batches\<close>

text \<open>The attributes of a model configuration that the script reads.\<close>

record model_config =
  model_type :: string
  vocab_size :: int
  num_hidden_layers :: int
  hidden_size :: int

text \<open>Lines 28--45: the built-in tags and the arguments of their \<^verbatim>\<open>LlamaConfig\<close>.\<close>

definition MODEL_CONFIGS :: "(string \<times> kwargs) list" where
  "MODEL_CONFIGS =
     [(''7b'', [(''max_position_embeddings'', VInt 4096)]),
      (''13b'',
         [(''hidden_size'', VInt 5120),
          (''intermediate_size'', VInt 13824),
          (''num_hidden_layers'', VInt 40),
          (''num_attention_heads'', VInt 40),
          (''max_position_embeddings'', VInt 4096)]),
      (''70b'',
         [(''hidden_size'', VInt 8192),
          (''intermediate_size'', VInt 28672),
          (''num_hidden_layers'', VInt 80),
          (''num_attention_heads'', VInt 64),
          (''max_position_embeddings'', VInt 4096),
          (''num_key_value_heads'', VInt 8)])]"

text \<open>The arguments of the \<^verbatim>\<open>RandomDataset\<close> constructor (lines 203--205).\<close>

record RandomDataset =
  num_samples :: int
  ds_max_length :: int
  ds_vocab_size :: int

type_synonym shape = "int \<times> int"

text \<open>A batch of the dataloader, by the shape of its \<^verbatim>\<open>input_ids\<close> tensor.\<close>

datatype batch = Batch (input_ids: shape)

text \<open>
  What \<^verbatim>\<open>on_step_end\<close> receives: \<^verbatim>\<open>torch.empty(batch_size, max_length)\<close> in
  the pipeline loop (line 271), the batch itself otherwise (line 281).
\<close>

datatype step_input = EmptyTensor int int | ActualBatch batch

fun input_ids_shape :: "step_input \<Rightarrow> shape" where
  "input_ids_shape (EmptyTensor b l) = (b, l)"
| "input_ids_shape (ActualBatch b) = input_ids b"

subsection \<open>The external world\<close>

text \<open>
  What the script reads from the framework, the libraries and the machine, taken as
  parameters: whether CUDA is available, the coordinator's world size, the
  \<^verbatim>\<open>dp_size\<close> attribute of a plugin object (\<open>None\<close> when its class defines
  none), the \<^verbatim>\<open>LlamaConfig\<close> constructor, \<^verbatim>\<open>AutoConfig.from_pretrained\<close>
  (\<open>Inl\<close> the message of the exception it raises), the batches of the dataloader that
  \<^verbatim>\<open>plugin.prepare_dataloader\<close> returns, \<^verbatim>\<open>get_model_numel\<close>, and the
  wall-clock readings immediately before and after the compute of each step.
\<close>

record env =
  cuda_is_available :: bool
  world_size :: int
  dp_size_attr :: "plugin_obj \<Rightarrow> int option"
  LlamaConfig :: "kwargs \<Rightarrow> model_config"
  from_pretrained :: "string \<Rightarrow> bool \<Rightarrow> string + model_config"
  prepare_dataloader :: "plugin_obj \<Rightarrow> RandomDataset \<Rightarrow> int \<Rightarrow> bool \<Rightarrow> bool \<Rightarrow> batch list"
  get_model_numel :: "model_config \<Rightarrow> int"
  time_before :: "nat \<Rightarrow> rat"
  time_after :: "nat \<Rightarrow> rat"

text \<open>Line 197: \<^verbatim>\<open>getattr(plugin, "dp_size", coordinator.world_size)\<close>.\<close>

definition getattr_dp_size :: "env \<Rightarrow> plugin_obj \<Rightarrow> int" where
  "getattr_dp_size e pl = (case dp_size_attr e pl of Some d \<Rightarrow> d | None \<Rightarrow> world_size e)"

subsection \<open>The performance evaluator\<close>

text \<open>
  Modelled from the spec: the class \<^verbatim>\<open>PerformanceEvaluator\<close> of
  \<^verbatim>\<open>performance_evaluator.py\<close> is not among the sources. The record holds the
  constructor arguments of lines 231--239 and the state the spec describes: a step
  measurement is a pair (step index, elapsed wall-time), appended to an ordered
  sequence. \<open>pe_pending\<close> is the step index and timestamp taken at the start of the
  step under measurement; \<open>pe_shape\<close> is the shape of the \<^verbatim>\<open>input_ids\<close> last
  reported.
\<close>

record PerformanceEvaluator =
  pe_model_numel :: int
  pe_num_layers :: int
  pe_hidden_size :: int
  pe_vocab_size :: int
  pe_enable_grad_checkpoint :: bool
  pe_ignore_steps :: int
  pe_dp_world_size :: int
  pe_pending :: "(int \<times> rat) option"
  pe_measurements :: "(int \<times> rat) list"
  pe_shape :: shape

text \<open>Modelled from the spec: the constructor starts with no measurement.\<close>

definition new_PerformanceEvaluator ::
  "int \<Rightarrow> int \<Rightarrow> int \<Rightarrow> int \<Rightarrow> bool \<Rightarrow> int \<Rightarrow> int \<Rightarrow> PerformanceEvaluator" where
  "new_PerformanceEvaluator numel layers hidden vocab gc ign dp =
     \<lparr> pe_model_numel = numel, pe_num_layers = layers, pe_hidden_size = hidden,
       pe_vocab_size = vocab, pe_enable_grad_checkpoint = gc, pe_ignore_steps = ign,
       pe_dp_world_size = dp, pe_pending = None, pe_measurements = [], pe_shape = (0, 0) \<rparr>"

text \<open>
  Modelled from the spec: \<^verbatim>\<open>on_step_start\<close> records a timestamp immediately before
  the step's compute.
\<close>

definition on_step_start :: "PerformanceEvaluator \<Rightarrow> int \<Rightarrow> rat \<Rightarrow> PerformanceEvaluator" where
  "on_step_start pe step now = pe\<lparr>pe_pending := Some (step, now)\<rparr>"

text \<open>
  Modelled from the spec: \<^verbatim>\<open>on_step_end\<close> records a timestamp immediately after
  the step's compute and appends the measurement (step index, elapsed wall-time).
\<close>

definition on_step_end :: "PerformanceEvaluator \<Rightarrow> shape \<Rightarrow> rat \<Rightarrow> PerformanceEvaluator" where
  "on_step_end pe shp now =
     (case pe_pending pe of
        None \<Rightarrow> pe
      | Some (step, t0) \<Rightarrow>
          pe\<lparr>pe_pending := None,
             pe_measurements := pe_measurements pe @ [(step, now - t0)],
             pe_shape := shp\<rparr>)"

text \<open>
  Modelled from the spec: the retained window is the measurements with step index at
  least \<^verbatim>\<open>ignore_steps\<close>; the first \<^verbatim>\<open>ignore_steps\<close> measurements are
  discarded.
\<close>

definition retained :: "PerformanceEvaluator \<Rightarrow> (int \<times> rat) list" where
  "retained pe = filter (\<lambda>m. pe_ignore_steps pe \<le> fst m) (pe_measurements pe)"

text \<open>
  Modelled from the spec: the elapsed time that the evaluator aggregates is the sum over
  the retained window.
\<close>

definition total_retained_time :: "PerformanceEvaluator \<Rightarrow> rat" where
  "total_retained_time pe = sum_list (map snd (retained pe))"

text \<open>Modelled from the spec: what \<^verbatim>\<open>on_fit_end\<close> reports.\<close>

record summary =
  mean_step_time :: rat
  tokens_per_sec :: rat

text \<open>
  Modelled from the spec: on completion, the mean step time over the retained window,
  and tokens/sec = (batch size \<open>\<times>\<close> sequence length \<open>\<times>\<close> retained step count) / total
  retained time, scaled by the data-parallel replica count. With no retained step, or
  no retained time, the figure is undefined: an error.
\<close>

definition on_fit_end :: "PerformanceEvaluator \<Rightarrow> error + summary" where
  "on_fit_end pe =
     (let count = length (retained pe);
          total = total_retained_time pe
      in if count = 0 \<or> total = 0 then Inl ZeroDivisionError
         else Inr \<lparr> mean_step_time = total / of_nat count,
                    tokens_per_sec =
                      of_int (fst (pe_shape pe) * snd (pe_shape pe) * int count) / total
                        * of_int (pe_dp_world_size pe) \<rparr>)"

subsection \<open>The trace of calls\<close>

text \<open>
  One event per call that \<^verbatim>\<open>main\<close> makes into the framework, with the arguments
  that matter. \<open>EnterInitContext True\<close> is \<^verbatim>\<open>LazyInitContext\<close>, \<open>False\<close> is
  \<^verbatim>\<open>nullcontext\<close>. \<open>OnFitEnd\<close> carries the state of the evaluator it is called on.
\<close>

datatype event =
    LaunchFromTorch
  | NewDistCoordinator
  | NewPlugin plugin_obj
  | NewBooster plugin_obj
  | AutoConfigFromPretrained string bool
  | NewRandomDataset RandomDataset
  | PrepareDataloader plugin_obj RandomDataset int bool bool
  | EnterInitContext bool
  | AutoModelFromConfig model_config bool kwargs
  | GradientCheckpointingEnable
  | EncoderGradientCheckpointing
  | PrintModelParams int
  | NewPerformanceEvaluator PerformanceEvaluator
  | NewHybridAdam
  | Boost
  | PrintInitMemory
  | EnterProfileContext bool int int
  | OnStepStart nat
  | ExecutePipeline
  | Forward batch
  | Backward
  | OptimizerStep
  | OptimizerZeroGrad
  | OnStepEnd step_input
  | ProfStep
  | OnFitEnd PerformanceEvaluator
  | PrintMaxMemory

subsection \<open>Configuration resolution\<close>

text \<open>
  Lines 199--202. A built-in tag selects its predefined configuration; any other value
  goes to \<^verbatim>\<open>AutoConfig.from_pretrained(args.config, trust_remote_code=True)\<close>.
\<close>

definition resolve_config :: "env \<Rightarrow> string \<Rightarrow> (error + model_config) \<times> event list" where
  "resolve_config e c =
     (case map_of MODEL_CONFIGS c of
        Some kw \<Rightarrow> (Inr (LlamaConfig e kw), [])
      | None \<Rightarrow>
          (case from_pretrained e c True of
             Inl msg \<Rightarrow> (Inl (ExternalError msg), [AutoConfigFromPretrained c True])
           | Inr cfg \<Rightarrow> (Inr cfg, [AutoConfigFromPretrained c True])))"

subsection \<open>The step loops\<close>

text \<open>The compute of one step: what runs between the two evaluator calls.\<close>

definition pipeline_compute :: "event list" where
  "pipeline_compute = [ExecutePipeline, OptimizerStep, OptimizerZeroGrad]"

definition plain_compute :: "batch \<Rightarrow> event list" where
  "plain_compute b = [Forward b, Backward, OptimizerStep, OptimizerZeroGrad]"

text \<open>Lines 261--272: the body of the pipeline loop.\<close>

definition pipeline_step ::
  "env \<Rightarrow> args \<Rightarrow> PerformanceEvaluator \<times> event list \<Rightarrow> nat \<Rightarrow> PerformanceEvaluator \<times> event list" where
  "pipeline_step e a st step =
     (let pe1 = on_step_start (fst st) (int step) (time_before e step);
          inp = EmptyTensor (batch_size a) (max_length a);
          pe2 = on_step_end pe1 (input_ids_shape inp) (time_after e step)
      in (pe2, snd st @ [OnStepStart step] @ pipeline_compute @ [OnStepEnd inp, ProfStep]))"

text \<open>Lines 275--282: the body of the plain loop.\<close>

definition plain_step ::
  "env \<Rightarrow> PerformanceEvaluator \<times> event list \<Rightarrow> nat \<times> batch \<Rightarrow> PerformanceEvaluator \<times> event list" where
  "plain_step e st sb =
     (let step = fst sb; b = snd sb;
          pe1 = on_step_start (fst st) (int step) (time_before e step);
          inp = ActualBatch b;
          pe2 = on_step_end pe1 (input_ids_shape inp) (time_after e step)
      in (pe2, snd st @ [OnStepStart step] @ plain_compute b @ [OnStepEnd inp, ProfStep]))"

text \<open>Line 260: \<^verbatim>\<open>for step in range(len(dataloader))\<close>.\<close>

definition pipeline_loop ::
  "env \<Rightarrow> args \<Rightarrow> PerformanceEvaluator \<Rightarrow> nat \<Rightarrow> PerformanceEvaluator \<times> event list" where
  "pipeline_loop e a pe n = foldl (pipeline_step e a) (pe, []) [0..<n]"

text \<open>Line 274: \<^verbatim>\<open>for step, batch in enumerate(dataloader)\<close>.\<close>

definition plain_loop ::
  "env \<Rightarrow> PerformanceEvaluator \<Rightarrow> batch list \<Rightarrow> PerformanceEvaluator \<times> event list" where
  "plain_loop e pe dl = foldl (plain_step e) (pe, []) (enumerate 0 dl)"

text \<open>Line 258: the condition of the pipeline path.\<close>

definition use_pipeline :: "plugin_obj \<Rightarrow> args \<Rightarrow> bool" where
  "use_pipeline pl a \<longleftrightarrow> cls pl = HybridParallelPlugin \<and> pp a > 1"

definition run_loop ::
  "env \<Rightarrow> args \<Rightarrow> plugin_obj \<Rightarrow> PerformanceEvaluator \<Rightarrow> batch list \<Rightarrow> PerformanceEvaluator \<times> event list" where
  "run_loop e a pl pe dl =
     (if use_pipeline pl a then pipeline_loop e a pe (length dl) else plain_loop e pe dl)"

subsection \<open>The main function\<close>

text \<open>Lines 203--205: the synthetic dataset, sized by the data-parallel size.\<close>

definition make_dataset :: "args \<Rightarrow> int \<Rightarrow> model_config \<Rightarrow> RandomDataset" where
  "make_dataset a dp_size cfg =
     \<lparr> num_samples = batch_size a * num_steps a * dp_size,
       ds_max_length = max_length a,
       ds_vocab_size = vocab_size cfg \<rparr>"

text \<open>Lines 229--239: the evaluator, given \<^verbatim>\<open>ignore_steps\<close> and the data-parallel size.\<close>

definition make_evaluator :: "env \<Rightarrow> args \<Rightarrow> int \<Rightarrow> model_config \<Rightarrow> PerformanceEvaluator" where
  "make_evaluator e a dp_size cfg =
     new_PerformanceEvaluator (get_model_numel e cfg) (num_hidden_layers cfg)
       (hidden_size cfg) (vocab_size cfg) (grad_checkpoint a) (ignore_steps a) dp_size"

text \<open>
  Lines 211--228: the initialisation context, the model and gradient checkpointing.
\<close>

definition model_events :: "args \<Rightarrow> plugin_obj \<Rightarrow> model_config \<Rightarrow> event list" where
  "model_events a pl cfg =
     (let lazy = (cls pl = GeminiPlugin \<or> cls pl = HybridParallelPlugin);
          init_kwargs =
            (if model_type cfg = ''chatglm'' then [(''empty_init'', VBool False)] else [])
      in [EnterInitContext lazy, AutoModelFromConfig cfg True init_kwargs]
         @ (if grad_checkpoint a then
              GradientCheckpointingEnable #
                (if model_type cfg = ''chatglm'' then [EncoderGradientCheckpointing] else [])
            else []))"

text \<open>
  Lines 197--285, after the booster is built: the data-parallel size, the configuration,
  the dataset and dataloader, the model, the evaluator, the loop and the summary. The
  result is the error that ends the run or the summary that \<^verbatim>\<open>on_fit_end\<close>
  reports, with the trace up to that point. The dataloader that \<^verbatim>\<open>booster.boost\<close>
  returns is taken to yield the batches of the one it was given.
\<close>

definition main_run ::
  "env \<Rightarrow> args \<Rightarrow> plugin_obj \<Rightarrow> event list \<Rightarrow> (error + summary) \<times> event list" where
  "main_run e a pl tr =
     (let dp_size = getattr_dp_size e pl in
      case resolve_config e (config a) of
        (Inl err, ev) \<Rightarrow> (Inl err, tr @ ev)
      | (Inr cfg, ev) \<Rightarrow>
          (let dataset = make_dataset a dp_size cfg;
               dataloader = prepare_dataloader e pl dataset (batch_size a) True True;
               pe = make_evaluator e a dp_size cfg;
               lp = run_loop e a pl pe dataloader;
               tr1 = tr @ ev
                 @ [NewRandomDataset dataset,
                    PrepareDataloader pl dataset (batch_size a) True True]
                 @ model_events a pl cfg
                 @ [PrintModelParams (get_model_numel e cfg),
                    NewPerformanceEvaluator pe,
                    NewHybridAdam, Boost, PrintInitMemory,
                    EnterProfileContext (profile a) 1 (int (length dataloader) - 1)]
                 @ snd lp
                 @ [OnFitEnd (fst lp)]
           in case on_fit_end (fst lp) of
                Inl err \<Rightarrow> (Inl err, tr1)
              | Inr s \<Rightarrow> (Inr s, tr1 @ [PrintMaxMemory])))"

text \<open>
  Lines 48--192, then the rest: \<^verbatim>\<open>parse_args\<close> comes first (line 81), then the
  distributed launch and the coordinator (lines 83--84), the plugin and the booster.
\<close>

definition main :: "env \<Rightarrow> args \<Rightarrow> (error + summary) \<times> event list" where
  "main e argv =
     (case parse_args argv of
        Inl err \<Rightarrow> (Inl err, [])
      | Inr a \<Rightarrow>
          (let tr0 = [LaunchFromTorch, NewDistCoordinator] in
           case select_plugin (cuda_is_available e) a of
             Inl err \<Rightarrow> (Inl err, tr0)
           | Inr pl \<Rightarrow> main_run e a pl (tr0 @ [NewPlugin pl, NewBooster pl])))"

subsection \<open>Reading a trace\<close>

text \<open>The measurement of step \<open>i\<close>: its index and the wall time of its compute.\<close>

definition elapsed :: "env \<Rightarrow> nat \<Rightarrow> int \<times> rat" where
  "elapsed e i = (int i, time_after e i - time_before e i)"


text \<open>The events that only the step loops emit.\<close>

definition is_loop_event :: "event \<Rightarrow> bool" where
  "is_loop_event ev =
     (case ev of
        OnStepStart _ \<Rightarrow> True
      | ExecutePipeline \<Rightarrow> True
      | Forward _ \<Rightarrow> True
      | Backward \<Rightarrow> True
      | OptimizerStep \<Rightarrow> True
      | OptimizerZeroGrad \<Rightarrow> True
      | OnStepEnd _ \<Rightarrow> True
      | ProfStep \<Rightarrow> True
      | _ \<Rightarrow> False)"

subsection \<open>The parts of a run\<close>

text \<open>Line 206: the dataloader of a run, for its plugin and configuration.\<close>

definition main_dataloader :: "env \<Rightarrow> args \<Rightarrow> plugin_obj \<Rightarrow> model_config \<Rightarrow> batch list" where
  "main_dataloader e a pl cfg =
     prepare_dataloader e pl (make_dataset a (getattr_dp_size e pl) cfg) (batch_size a) True True"

text \<open>The wall time of the compute of step \<open>i\<close>.\<close>

definition step_time :: "env \<Rightarrow> nat \<Rightarrow> rat" where
  "step_time e i = time_after e i - time_before e i"

text \<open>Of \<open>n\<close> executed steps, those with an index of at least \<^verbatim>\<open>ignore_steps\<close>.\<close>

definition retained_steps :: "args \<Rightarrow> nat \<Rightarrow> nat list" where
  "retained_steps a n = filter (\<lambda>i. ignore_steps a \<le> int i) [0..<n]"

subsection \<open>A sample run\<close>

text \<open>
  A world of four processes: the Gemini and hybrid plugins define \<^verbatim>\<open>dp_size\<close>
  as 2, the FSDP plugin defines none; the default LLaMA configuration; no pretrained
  configuration to be found; a dataloader that gives each replica its share of the
  dataset in full batches; and steps that take three seconds each.
\<close>

definition sample_env :: env where
  "sample_env =
     \<lparr> cuda_is_available = True,
       world_size = 4,
       dp_size_attr = (\<lambda>pl. if cls pl = TorchFSDPPlugin then None else Some 2),
       LlamaConfig = (\<lambda>kw. \<lparr> model_type = ''llama'', vocab_size = 32000,
                               num_hidden_layers = 32, hidden_size = 4096 \<rparr>),
       from_pretrained = (\<lambda>name trust. Inl ''not found''),
       prepare_dataloader =
         (\<lambda>pl ds bs shuffle drop_last.
            replicate
              (nat (num_samples ds div (if cls pl = TorchFSDPPlugin then 4 else 2) div bs))
              (Batch (bs, ds_max_length ds))),
       get_model_numel = (\<lambda>cfg. 6738415616),
       time_before = (\<lambda>i. 10 * of_nat i),
       time_after = (\<lambda>i. 10 * of_nat i + 3) \<rparr>"

text \<open>The plugin that the default arguments select in that world.\<close>

definition sample_plugin :: plugin_obj where
  "sample_plugin =
     Plugin GeminiPlugin
       [(''precision'', VStr ''bf16''),
        (''shard_param_frac'', VFloat 1),
        (''offload_optim_frac'', VFloat 0),
        (''offload_param_frac'', VFloat 0),
        (''tp_size'', VInt 1),
        (''extra_dp_size'', VInt 1),
        (''enable_fused_normalization'', VBool True),
        (''enable_flash_attention'', VBool False),
        (''max_prefetch'', VInt 10)]"

text \<open>The configuration that the tag \<^verbatim>\<open>7b\<close> resolves to in that world.\<close>

definition sample_config :: model_config where
  "sample_config = \<lparr> model_type = ''llama'', vocab_size = 32000,
                       num_hidden_layers = 32, hidden_size = 4096 \<rparr>"

text \<open>The evaluator of that run, as constructed and as it is at \<^verbatim>\<open>on_fit_end\<close>.\<close>

definition sample_evaluator :: PerformanceEvaluator where
  "sample_evaluator =
     \<lparr> pe_model_numel = 6738415616, pe_num_layers = 32, pe_hidden_size = 4096,
       pe_vocab_size = 32000, pe_enable_grad_checkpoint = False, pe_ignore_steps = 2,
       pe_dp_world_size = 2, pe_pending = None, pe_measurements = [], pe_shape = (0, 0) \<rparr>"

definition sample_final_evaluator :: PerformanceEvaluator where
  "sample_final_evaluator =
     sample_evaluator
       \<lparr> pe_measurements := [(0, 3), (1, 3), (2, 3), (3, 3), (4, 3)],
         pe_shape := (2, 4096) \<rparr>"

text \<open>
  Three more runs in that world: the FSDP plugin, the hybrid plugin with two pipeline
  stages, and a configuration name that is not a built-in tag.
\<close>

definition fsdp_args :: args where
  "fsdp_args = default_args\<lparr>plugin := ''fsdp''\<rparr>"

definition sample_fsdp_plugin :: plugin_obj where
  "sample_fsdp_plugin =
     Plugin TorchFSDPPlugin
       [(''mixed_precision'', MixedPrecision_fp16), (''param_init_fn'', VNone)]"

definition pipeline_args :: args where
  "pipeline_args = default_args\<lparr>plugin := ''3d'', pp := 2\<rparr>"

definition sample_hybrid_plugin :: plugin_obj where
  "sample_hybrid_plugin =
     Plugin HybridParallelPlugin
       [(''tp_size'', VInt 1),
        (''pp_size'', VInt 2),
        (''zero_stage'', VInt 0),
        (''enable_fused_normalization'', VBool True),
        (''enable_flash_attention'', VBool False),
        (''microbatch_size'', VInt 1),
        (''precision'', VStr ''bf16''),
        (''dp_outside'', VBool False)]"

definition unknown_config_args :: args where
  "unknown_config_args = default_args\<lparr>config := ''org/model''\<rparr>"

text \<open>A run whose steps are all warm-up.\<close>

definition warmup_only_args :: args where
  "warmup_only_args = default_args\<lparr>ignore_steps := 5\<rparr>"



text \<open>A pipeline run with sequences of length zero.\<close>

definition zero_length_args :: args where
  "zero_length_args = pipeline_args\<lparr>max_length := 0\<rparr>"



section \<open>Auxiliary facts\<close>

lemma on_step_pair:
  "on_step_end (on_step_start pe step t0) shp t1 =
     pe\<lparr>pe_pending := None, pe_measurements := pe_measurements pe @ [(step, t1 - t0)], pe_shape := shp\<rparr>"
  by (simp add: on_step_start_def on_step_end_def)

lemma pipeline_loop_Suc:
  "pipeline_loop e a pe (Suc n) = pipeline_step e a (pipeline_loop e a pe n) n"
  by (simp add: pipeline_loop_def)

lemma plain_loop_snoc:
  "plain_loop e pe (dl @ [b]) = plain_step e (plain_loop e pe dl) (length dl, b)"
  by (simp add: plain_loop_def enumerate_append_eq)

lemma pipeline_loop_trace:
  "snd (pipeline_loop e a pe n) =
     concat (map (\<lambda>i. [OnStepStart i] @ pipeline_compute @
        [OnStepEnd (EmptyTensor (batch_size a) (max_length a)), ProfStep]) [0..<n])"
proof (induction n)
  case 0
  show ?case by (simp add: pipeline_loop_def)
next
  case (Suc n)
  then show ?case by (simp add: pipeline_loop_Suc pipeline_step_def Let_def)
qed

lemma plain_loop_trace:
  "snd (plain_loop e pe dl) =
     concat (map (\<lambda>(i, b). [OnStepStart i] @ plain_compute b @
        [OnStepEnd (ActualBatch b), ProfStep]) (enumerate 0 dl))"
proof (induction dl rule: rev_induct)
  case Nil
  show ?case by (simp add: plain_loop_def)
next
  case (snoc b dl)
  then show ?case by (simp add: plain_loop_snoc plain_step_def Let_def enumerate_append_eq)
qed

lemma pipeline_loop_state:
  "fst (pipeline_loop e a pe n) =
     (if n = 0 then pe else
      pe\<lparr>pe_pending := None,
         pe_measurements := pe_measurements pe @ map (elapsed e) [0..<n],
         pe_shape := (batch_size a, max_length a)\<rparr>)"
proof (induction n)
  case 0
  show ?case by (simp add: pipeline_loop_def)
next
  case (Suc n)
  then show ?case
    by (cases "n = 0") (simp_all add: pipeline_loop_Suc pipeline_step_def Let_def on_step_pair elapsed_def)
qed

lemma plain_loop_state:
  "fst (plain_loop e pe dl) =
     (if dl = [] then pe else
      pe\<lparr>pe_pending := None,
         pe_measurements := pe_measurements pe @ map (elapsed e) [0..<length dl],
         pe_shape := input_ids (last dl)\<rparr>)"
proof (induction dl rule: rev_induct)
  case Nil
  show ?case by (simp add: plain_loop_def)
next
  case (snoc b dl)
  have step: "fst (plain_loop e pe (dl @ [b])) =
      (fst (plain_loop e pe dl))\<lparr>pe_pending := None,
         pe_measurements := pe_measurements (fst (plain_loop e pe dl)) @ [elapsed e (length dl)],
         pe_shape := input_ids b\<rparr>"
    by (simp add: plain_loop_snoc plain_step_def Let_def on_step_pair elapsed_def)
  show ?case
  proof (cases "dl = []")
    case True
    with step show ?thesis by (simp add: plain_loop_def)
  next
    case False
    with step snoc show ?thesis by simp
  qed
qed


lemma run_loop_state:
  "fst (run_loop e a pl pe dl) =
     (if dl = [] then pe else
      pe\<lparr>pe_pending := None,
         pe_measurements := pe_measurements pe @ map (elapsed e) [0..<length dl],
         pe_shape := (if use_pipeline pl a then (batch_size a, max_length a)
                      else input_ids (last dl))\<rparr>)"
  by (simp add: run_loop_def pipeline_loop_state plain_loop_state)







lemma run_loop_events: "ev \<in> set (snd (run_loop e a pl pe dl)) \<Longrightarrow> is_loop_event ev"
  by (auto simp: run_loop_def pipeline_loop_trace plain_loop_trace is_loop_event_def
      pipeline_compute_def plain_compute_def split: if_splits)

lemma select_plugin_supported:
  "plugin a \<in> set plugin_choices \<Longrightarrow> \<exists>pl. select_plugin c a = Inr pl"
  by (auto simp: plugin_choices_def select_plugin_def)

lemma select_plugin_unsupported:
  "plugin a \<notin> set plugin_choices \<Longrightarrow> select_plugin c a = Inl (ValueError (''Unknown plugin '' @ plugin a))"
  by (simp add: plugin_choices_def select_plugin_def)

lemma main_unsupported:
  "plugin a \<notin> set plugin_choices \<Longrightarrow>
     main e a = (Inl (ArgparseInvalidChoice ''-p/--plugin'' (plugin a)), [])"
  by (simp add: main_def parse_args_def)

lemma main_supported:
  "plugin a \<in> set plugin_choices \<Longrightarrow> select_plugin (cuda_is_available e) a = Inr pl \<Longrightarrow>
     main e a = main_run e a pl [LaunchFromTorch, NewDistCoordinator, NewPlugin pl, NewBooster pl]"
  by (simp add: main_def parse_args_def)

lemma main_run_config_error:
  "fst (resolve_config e (config a)) = Inl err \<Longrightarrow>
     main_run e a pl tr = (Inl err, tr @ snd (resolve_config e (config a)))"
  by (cases "resolve_config e (config a)") (simp add: main_run_def)

lemma main_run_result:
  "fst (resolve_config e (config a)) = Inr cfg \<Longrightarrow>
     fst (main_run e a pl tr) =
       on_fit_end (fst (run_loop e a pl (make_evaluator e a (getattr_dp_size e pl) cfg)
         (prepare_dataloader e pl (make_dataset a (getattr_dp_size e pl) cfg) (batch_size a) True True)))"
  by (cases "resolve_config e (config a)") (simp add: main_run_def Let_def split: sum.splits)

lemma main_run_trace:
  "fst (resolve_config e (config a)) = Inr cfg \<Longrightarrow>
     snd (main_run e a pl tr) =
       tr @ snd (resolve_config e (config a))
        @ [NewRandomDataset (make_dataset a (getattr_dp_size e pl) cfg),
           PrepareDataloader pl (make_dataset a (getattr_dp_size e pl) cfg) (batch_size a) True True]
        @ model_events a pl cfg
        @ [PrintModelParams (get_model_numel e cfg),
           NewPerformanceEvaluator (make_evaluator e a (getattr_dp_size e pl) cfg),
           NewHybridAdam, Boost, PrintInitMemory,
           EnterProfileContext (profile a) 1
             (int (length (prepare_dataloader e pl (make_dataset a (getattr_dp_size e pl) cfg)
                (batch_size a) True True)) - 1)]
        @ snd (run_loop e a pl (make_evaluator e a (getattr_dp_size e pl) cfg)
            (prepare_dataloader e pl (make_dataset a (getattr_dp_size e pl) cfg) (batch_size a) True True))
        @ [OnFitEnd (fst (run_loop e a pl (make_evaluator e a (getattr_dp_size e pl) cfg)
            (prepare_dataloader e pl (make_dataset a (getattr_dp_size e pl) cfg) (batch_size a) True True)))]
        @ (case fst (main_run e a pl tr) of Inl err \<Rightarrow> [] | Inr s \<Rightarrow> [PrintMaxMemory])"
  by (cases "resolve_config e (config a)") (simp add: main_run_def Let_def split: sum.splits)

lemma main_run_prefix: "\<exists>rest. snd (main_run e a pl tr) = tr @ rest"
  by (cases "resolve_config e (config a)"; cases "fst (resolve_config e (config a))")
     (simp_all add: main_run_config_error main_run_trace)

lemma sample_gemini: "select_plugin True default_args = Inr sample_plugin"
  by (simp add: select_plugin_def default_args_def sample_plugin_def)


lemma model_events_cases: "ev \<in> set (model_events a pl cfg) \<Longrightarrow>
   ev = EnterInitContext (cls pl = GeminiPlugin \<or> cls pl = HybridParallelPlugin) \<or>
   (\<exists>kw. ev = AutoModelFromConfig cfg True kw) \<or> ev = GradientCheckpointingEnable \<or> ev = EncoderGradientCheckpointing"
  by (auto simp: model_events_def Let_def split: if_splits)


lemma resolve_config_events:
  "ev \<in> set (snd (resolve_config e c)) \<Longrightarrow> ev = AutoConfigFromPretrained c True \<and> map_of MODEL_CONFIGS c = None"
  by (auto simp: resolve_config_def split: option.splits sum.splits)


lemma select_plugin_Inr:
  "select_plugin c a = Inr pl \<Longrightarrow> plugin a \<in> set plugin_choices"
  using select_plugin_unsupported [of a c] by auto

lemma select_plugin_class:
  "select_plugin c a = Inr pl \<Longrightarrow>
     cls pl = (if plugin a = ''gemini'' \<or> plugin a = ''gemini_auto'' then GeminiPlugin
               else if plugin a = ''fsdp'' \<or> plugin a = ''fsdp_cpu'' then TorchFSDPPlugin
               else HybridParallelPlugin)"
  by (auto simp: select_plugin_def split: if_splits)

lemma main_config_error:
  assumes "select_plugin (cuda_is_available e) a = Inr pl"
    and "fst (resolve_config e (config a)) = Inl err"
  shows "main e a = (Inl err, [LaunchFromTorch, NewDistCoordinator, NewPlugin pl, NewBooster pl]
            @ snd (resolve_config e (config a)))"
  using assms main_supported [OF select_plugin_Inr [OF assms(1)] assms(1)]
  by (simp add: main_run_config_error)

lemma main_ok_result:
  assumes "select_plugin (cuda_is_available e) a = Inr pl"
    and "fst (resolve_config e (config a)) = Inr cfg"
  shows "fst (main e a) =
       on_fit_end (fst (run_loop e a pl (make_evaluator e a (getattr_dp_size e pl) cfg)
         (prepare_dataloader e pl (make_dataset a (getattr_dp_size e pl) cfg) (batch_size a) True True)))"
  using assms main_supported [OF select_plugin_Inr [OF assms(1)] assms(1)]
  by (simp add: main_run_result)

lemma main_ok_trace:
  assumes "select_plugin (cuda_is_available e) a = Inr pl"
    and "fst (resolve_config e (config a)) = Inr cfg"
  shows "snd (main e a) =
       [LaunchFromTorch, NewDistCoordinator, NewPlugin pl, NewBooster pl]
        @ snd (resolve_config e (config a))
        @ [NewRandomDataset (make_dataset a (getattr_dp_size e pl) cfg),
           PrepareDataloader pl (make_dataset a (getattr_dp_size e pl) cfg) (batch_size a) True True]
        @ model_events a pl cfg
        @ [PrintModelParams (get_model_numel e cfg),
           NewPerformanceEvaluator (make_evaluator e a (getattr_dp_size e pl) cfg),
           NewHybridAdam, Boost, PrintInitMemory,
           EnterProfileContext (profile a) 1
             (int (length (prepare_dataloader e pl (make_dataset a (getattr_dp_size e pl) cfg)
                (batch_size a) True True)) - 1)]
        @ snd (run_loop e a pl (make_evaluator e a (getattr_dp_size e pl) cfg)
            (prepare_dataloader e pl (make_dataset a (getattr_dp_size e pl) cfg) (batch_size a) True True))
        @ [OnFitEnd (fst (run_loop e a pl (make_evaluator e a (getattr_dp_size e pl) cfg)
            (prepare_dataloader e pl (make_dataset a (getattr_dp_size e pl) cfg) (batch_size a) True True)))]
        @ (case fst (main e a) of Inl err \<Rightarrow> [] | Inr s \<Rightarrow> [PrintMaxMemory])"
  using main_run_trace [OF assms(2), of pl "[LaunchFromTorch, NewDistCoordinator, NewPlugin pl, NewBooster pl]"]
    main_supported [OF select_plugin_Inr [OF assms(1)] assms(1)]
  by simp

lemma main_trace_cases:
  assumes "ev \<in> set (snd (main e a))"
  obtains pl where "select_plugin (cuda_is_available e) a = Inr pl"
proof (cases "plugin a \<in> set plugin_choices")
  case True
  then show ?thesis using select_plugin_supported that by blast
next
  case False
  with assms show ?thesis by (simp add: main_unsupported)
qed

lemma main_dataset_event:
  assumes "NewRandomDataset ds \<in> set (snd (main e a))"
    and "select_plugin (cuda_is_available e) a = Inr pl"
  shows "\<exists>cfg. fst (resolve_config e (config a)) = Inr cfg
           \<and> ds = make_dataset a (getattr_dp_size e pl) cfg"
proof (cases "fst (resolve_config e (config a))")
  case (Inl err)
  with assms show ?thesis
    by (auto simp: main_config_error dest: resolve_config_events)
next
  case (Inr cfg)
  with assms show ?thesis
    by (auto simp: main_ok_trace is_loop_event_def
        dest: resolve_config_events model_events_cases run_loop_events split: sum.splits)
qed

lemma main_evaluator_event:
  assumes "NewPerformanceEvaluator pe \<in> set (snd (main e a))"
    and "select_plugin (cuda_is_available e) a = Inr pl"
  shows "\<exists>cfg. fst (resolve_config e (config a)) = Inr cfg
           \<and> pe = make_evaluator e a (getattr_dp_size e pl) cfg"
proof (cases "fst (resolve_config e (config a))")
  case (Inl err)
  with assms show ?thesis
    by (auto simp: main_config_error dest: resolve_config_events)
next
  case (Inr cfg)
  with assms show ?thesis
    by (auto simp: main_ok_trace is_loop_event_def
        dest: resolve_config_events model_events_cases run_loop_events split: sum.splits)
qed

lemma main_fit_end_event:
  assumes "OnFitEnd pe \<in> set (snd (main e a))"
    and "select_plugin (cuda_is_available e) a = Inr pl"
  shows "\<exists>cfg. fst (resolve_config e (config a)) = Inr cfg
           \<and> pe = fst (run_loop e a pl (make_evaluator e a (getattr_dp_size e pl) cfg)
            (prepare_dataloader e pl (make_dataset a (getattr_dp_size e pl) cfg) (batch_size a) True True))"
proof (cases "fst (resolve_config e (config a))")
  case (Inl err)
  with assms show ?thesis
    by (auto simp: main_config_error dest: resolve_config_events)
next
  case (Inr cfg)
  with assms show ?thesis
    by (auto simp: main_ok_trace is_loop_event_def
        dest: resolve_config_events model_events_cases run_loop_events split: sum.splits)
qed

lemma main_loop_event:
  assumes "ev \<in> set (snd (main e a))" and "is_loop_event ev"
    and "select_plugin (cuda_is_available e) a = Inr pl"
  shows "\<exists>cfg. fst (resolve_config e (config a)) = Inr cfg
           \<and> ev \<in> set (snd (run_loop e a pl (make_evaluator e a (getattr_dp_size e pl) cfg)
            (prepare_dataloader e pl (make_dataset a (getattr_dp_size e pl) cfg) (batch_size a) True True)))"
proof (cases "fst (resolve_config e (config a))")
  case (Inl err)
  with assms show ?thesis
    by (auto simp: main_config_error is_loop_event_def dest: resolve_config_events)
next
  case (Inr cfg)
  with assms show ?thesis
    by (auto simp: main_ok_trace is_loop_event_def
        dest: resolve_config_events model_events_cases split: sum.splits)
qed


lemma sample_select:
  "select_plugin (cuda_is_available sample_env) default_args = Inr sample_plugin"
  by (simp add: select_plugin_def default_args_def sample_env_def sample_plugin_def)

lemma sample_resolve:
  "resolve_config sample_env (config default_args) = (Inr sample_config, [])"
  by (simp add: resolve_config_def MODEL_CONFIGS_def default_args_def sample_env_def sample_config_def)

lemma sample_resolve_fst:
  "fst (resolve_config sample_env (config default_args)) = Inr sample_config"
  by (simp add: sample_resolve)

lemma sample_dp_size: "getattr_dp_size sample_env sample_plugin = 2"
  by (simp add: getattr_dp_size_def sample_env_def sample_plugin_def)

lemma sample_dataset:
  "make_dataset default_args 2 sample_config =
     \<lparr> num_samples = 20, ds_max_length = 4096, ds_vocab_size = 32000 \<rparr>"
  by (simp add: make_dataset_def default_args_def sample_config_def)

lemma sample_dataloader:
  "prepare_dataloader sample_env sample_plugin
     \<lparr> num_samples = 20, ds_max_length = 4096, ds_vocab_size = 32000 \<rparr>
     (batch_size default_args) True True = replicate 5 (Batch (2, 4096))"
  by (simp add: sample_env_def default_args_def sample_plugin_def)

lemma sample_trace_dataset:
  "NewRandomDataset \<lparr> num_samples = 20, ds_max_length = 4096, ds_vocab_size = 32000 \<rparr>
     \<in> set (snd (main sample_env default_args))"
  by (simp add: main_ok_trace [OF sample_select sample_resolve_fst] sample_dp_size sample_dataset)

lemma run_loop_dp_world_size:
  "pe_dp_world_size (fst (run_loop e a pl pe dl)) = pe_dp_world_size pe"
  by (simp add: run_loop_state)

lemma run_loop_ignore_steps:
  "pe_ignore_steps (fst (run_loop e a pl pe dl)) = pe_ignore_steps pe"
  by (simp add: run_loop_state)

lemma sample_make_evaluator:
  "make_evaluator sample_env default_args 2 sample_config = sample_evaluator"
  by (simp add: make_evaluator_def new_PerformanceEvaluator_def sample_env_def default_args_def
      sample_config_def sample_evaluator_def)

lemma upt_5: "[0..<5] = [0, 1, 2, 3, 4]"
  by (simp add: upt_rec)

lemma sample_use_pipeline: "\<not> use_pipeline sample_plugin default_args"
  by (simp add: use_pipeline_def sample_plugin_def)

lemma sample_run_loop_fst:
  "fst (run_loop sample_env default_args sample_plugin sample_evaluator
     (replicate 5 (Batch (2, 4096)))) = sample_final_evaluator"
  by (simp add: run_loop_state sample_use_pipeline upt_5 elapsed_def sample_env_def
      sample_final_evaluator_def sample_evaluator_def)

lemma sample_trace_evaluator:
  "NewPerformanceEvaluator sample_evaluator \<in> set (snd (main sample_env default_args))"
  by (simp add: main_ok_trace [OF sample_select sample_resolve_fst] sample_dp_size
      sample_make_evaluator)

lemma sample_trace_fit_end:
  "OnFitEnd sample_final_evaluator \<in> set (snd (main sample_env default_args))"
  by (simp add: main_ok_trace [OF sample_select sample_resolve_fst] sample_dp_size
      sample_make_evaluator sample_dataset sample_dataloader sample_run_loop_fst)

lemma fsdp_select:
  "select_plugin (cuda_is_available sample_env) fsdp_args = Inr sample_fsdp_plugin"
  by (simp add: select_plugin_def fsdp_args_def default_args_def sample_fsdp_plugin_def)

lemma fsdp_resolve_fst:
  "fst (resolve_config sample_env (config fsdp_args)) = Inr sample_config"
  using sample_resolve_fst by (simp add: fsdp_args_def)

lemma fsdp_trace_dataset:
  "NewRandomDataset \<lparr> num_samples = 40, ds_max_length = 4096, ds_vocab_size = 32000 \<rparr>
     \<in> set (snd (main sample_env fsdp_args))"
  by (simp add: main_ok_trace [OF fsdp_select fsdp_resolve_fst] make_dataset_def
      getattr_dp_size_def sample_fsdp_plugin_def)
     (simp add: sample_env_def fsdp_args_def default_args_def sample_config_def)

lemma pipeline_select:
  "select_plugin (cuda_is_available sample_env) pipeline_args = Inr sample_hybrid_plugin"
  by (simp add: select_plugin_def pipeline_args_def default_args_def sample_hybrid_plugin_def
      sample_env_def hybrid_kwargs_def)

lemma pipeline_resolve_fst:
  "fst (resolve_config sample_env (config pipeline_args)) = Inr sample_config"
  using sample_resolve_fst by (simp add: pipeline_args_def)

lemma pipeline_dataloader:
  "prepare_dataloader sample_env sample_hybrid_plugin
     (make_dataset pipeline_args (getattr_dp_size sample_env sample_hybrid_plugin) sample_config)
     (batch_size pipeline_args) True True = replicate 5 (Batch (2, 4096))"
  by (simp add: make_dataset_def getattr_dp_size_def sample_hybrid_plugin_def)
     (simp add: sample_env_def pipeline_args_def default_args_def)

lemma sample_dataloader':
  "prepare_dataloader sample_env sample_plugin
     (make_dataset default_args (getattr_dp_size sample_env sample_plugin) sample_config)
     (batch_size default_args) True True = replicate 5 (Batch (2, 4096))"
  by (simp add: sample_dp_size sample_dataset sample_dataloader)

lemma pipeline_loop_has:
  "0 < n \<Longrightarrow>
     ExecutePipeline \<in> set (snd (pipeline_loop e a pe n))
     \<and> OnStepEnd (EmptyTensor (batch_size a) (max_length a)) \<in> set (snd (pipeline_loop e a pe n))"
  by (auto simp: pipeline_loop_trace pipeline_compute_def)

lemma plain_loop_has:
  assumes "b \<in> set dl"
  shows "Forward b \<in> set (snd (plain_loop e pe dl))
     \<and> OnStepEnd (ActualBatch b) \<in> set (snd (plain_loop e pe dl))"
proof -
  from assms obtain i where "i < length dl" "dl ! i = b"
    by (auto simp: in_set_conv_nth)
  then have "(i, b) \<in> set (enumerate 0 dl)"
    by (simp add: in_set_enumerate_eq)
  then show ?thesis
    by (auto simp: plain_loop_trace plain_compute_def intro!: bexI [of _ "(i, b)"])
qed

lemma pipeline_loop_no_forward: "Forward b \<notin> set (snd (pipeline_loop e a pe n))"
  by (auto simp: pipeline_loop_trace pipeline_compute_def)

lemma plain_loop_no_pipeline: "ExecutePipeline \<notin> set (snd (plain_loop e pe dl))"
  by (auto simp: plain_loop_trace plain_compute_def)

lemma pipeline_loop_step_end:
  "OnStepEnd inp \<in> set (snd (pipeline_loop e a pe n)) \<Longrightarrow>
     inp = EmptyTensor (batch_size a) (max_length a)"
  by (auto simp: pipeline_loop_trace pipeline_compute_def)

lemma plain_loop_step_end:
  "OnStepEnd inp \<in> set (snd (plain_loop e pe dl)) \<Longrightarrow>
     \<exists>b. inp = ActualBatch b \<and> Forward b \<in> set (snd (plain_loop e pe dl))"
  by (auto simp: plain_loop_trace plain_compute_def)

lemma pipeline_trace_events:
  "ExecutePipeline \<in> set (snd (main sample_env pipeline_args))
   \<and> OnStepEnd (EmptyTensor 2 4096) \<in> set (snd (main sample_env pipeline_args))"
proof -
  have u: "use_pipeline sample_hybrid_plugin pipeline_args"
    by (simp add: use_pipeline_def sample_hybrid_plugin_def pipeline_args_def default_args_def)
  have b: "batch_size pipeline_args = 2" "max_length pipeline_args = 4096"
    by (simp_all add: pipeline_args_def default_args_def)
  have h: "ExecutePipeline \<in> set (snd (pipeline_loop sample_env pipeline_args pe 5))"
    "OnStepEnd (EmptyTensor 2 4096) \<in> set (snd (pipeline_loop sample_env pipeline_args pe 5))"
    for pe
    using pipeline_loop_has [of 5 sample_env pipeline_args pe] by (simp_all add: b)
  show ?thesis
    by (simp add: main_ok_trace [OF pipeline_select pipeline_resolve_fst] pipeline_dataloader
        run_loop_def u h)
qed

lemma sample_trace_events:
  "Forward (Batch (2, 4096)) \<in> set (snd (main sample_env default_args))
   \<and> OnStepEnd (ActualBatch (Batch (2, 4096))) \<in> set (snd (main sample_env default_args))"
proof -
  have "Batch (2, 4096) \<in> set (replicate 5 (Batch (2, 4096)))" by simp
  from plain_loop_has [OF this] show ?thesis
    by (simp add: main_ok_trace [OF sample_select sample_resolve_fst] sample_dataloader'
        run_loop_def sample_use_pipeline)
qed

lemma builtin_tags: "dom (map_of MODEL_CONFIGS) = {''7b'', ''13b'', ''70b''}"
  by (auto simp: MODEL_CONFIGS_def split: if_splits)

lemma resolve_config_builtin:
  "map_of MODEL_CONFIGS c = Some kw \<Longrightarrow> resolve_config e c = (Inr (LlamaConfig e kw), [])"
  by (simp add: resolve_config_def)

lemma resolve_config_other:
  "c \<notin> {''7b'', ''13b'', ''70b''} \<Longrightarrow>
     resolve_config e c =
       (case from_pretrained e c True of Inl msg \<Rightarrow> Inl (ExternalError msg) | Inr cfg \<Rightarrow> Inr cfg,
        [AutoConfigFromPretrained c True])"
proof -
  assume "c \<notin> {''7b'', ''13b'', ''70b''}"
  with builtin_tags have "map_of MODEL_CONFIGS c = None" by blast
  then show ?thesis by (simp add: resolve_config_def split: sum.splits)
qed

lemma resolve_config_error:
  assumes "fst (resolve_config e c) = Inl err"
  shows "c \<notin> {''7b'', ''13b'', ''70b''} \<and> (\<exists>msg. err = ExternalError msg \<and> from_pretrained e c True = Inl msg)"
proof (cases "map_of MODEL_CONFIGS c")
  case None
  with builtin_tags have "c \<notin> {''7b'', ''13b'', ''70b''}" by blast
  with assms show ?thesis by (auto simp: resolve_config_other split: sum.splits)
next
  case (Some kw)
  with assms show ?thesis by (simp add: resolve_config_builtin)
qed

lemma main_from_pretrained_event:
  assumes "AutoConfigFromPretrained c t \<in> set (snd (main e a))"
  shows "c = config a \<and> t = True \<and> config a \<notin> {''7b'', ''13b'', ''70b''}"
proof -
  from assms obtain pl where pl: "select_plugin (cuda_is_available e) a = Inr pl"
    by (rule main_trace_cases)
  have "AutoConfigFromPretrained c t \<in> set (snd (resolve_config e (config a)))"
  proof (cases "fst (resolve_config e (config a))")
    case (Inl err)
    with assms pl show ?thesis by (auto simp: main_config_error)
  next
    case (Inr cfg)
    with assms pl show ?thesis
      by (auto simp: main_ok_trace is_loop_event_def
          dest: model_events_cases run_loop_events split: sum.splits)
  qed
  from resolve_config_events [OF this] builtin_tags show ?thesis by auto
qed

lemma sample_13b: "map_of MODEL_CONFIGS ''13b'' =
    Some [(''hidden_size'', VInt 5120),
          (''intermediate_size'', VInt 13824),
          (''num_hidden_layers'', VInt 40),
          (''num_attention_heads'', VInt 40),
          (''max_position_embeddings'', VInt 4096)]"
  by (simp add: MODEL_CONFIGS_def)

lemma run_loop_measurements:
  "pe_measurements (fst (run_loop e a pl pe dl)) =
     pe_measurements pe @ map (elapsed e) [0..<length dl]"
  by (simp add: run_loop_state)

lemma run_loop_shape:
  "dl \<noteq> [] \<Longrightarrow> pe_shape (fst (run_loop e a pl pe dl)) =
     (if use_pipeline pl a then (batch_size a, max_length a) else input_ids (last dl))"
  by (simp add: run_loop_state)

lemma make_evaluator_fields:
  "pe_measurements (make_evaluator e a dp cfg) = []"
  "pe_ignore_steps (make_evaluator e a dp cfg) = ignore_steps a"
  "pe_dp_world_size (make_evaluator e a dp cfg) = dp"
  by (simp_all add: make_evaluator_def new_PerformanceEvaluator_def)

lemma retained_elapsed:
  assumes "pe_measurements pe = map (elapsed e) xs"
  shows "retained pe = map (elapsed e) (filter (\<lambda>i. pe_ignore_steps pe \<le> int i) xs)"
  using assms by (simp add: retained_def filter_map o_def elapsed_def)






lemma pipeline_loop_measurements:
  "pe_measurements (fst (pipeline_loop e a pe n)) = pe_measurements pe @ map (elapsed e) [0..<n]"
  by (simp add: pipeline_loop_state)

lemma plain_loop_measurements:
  "pe_measurements (fst (plain_loop e pe dl)) =
     pe_measurements pe @ map (elapsed e) [0..<length dl]"
  by (simp add: plain_loop_state)

lemma retained_map_elapsed:
  assumes "pe_measurements pe = map (elapsed e) [0..<n]" and "pe_ignore_steps pe = ignore_steps a"
  shows "retained pe = map (elapsed e) (retained_steps a n)"
    and "total_retained_time pe = sum_list (map (step_time e) (retained_steps a n))"
proof -
  show r: "retained pe = map (elapsed e) (retained_steps a n)"
    using retained_elapsed [OF assms(1)] by (simp add: assms(2) retained_steps_def)
  show "total_retained_time pe = sum_list (map (step_time e) (retained_steps a n))"
  proof -
    have "step_time e = (\<lambda>i. time_after e i - time_before e i)"
      by (simp add: step_time_def fun_eq_iff)
    then show ?thesis
      by (simp add: total_retained_time_def r o_def elapsed_def)
  qed
qed

lemma main_ok_final:
  assumes pl: "select_plugin (cuda_is_available e) a = Inr pl"
    and cfg: "fst (resolve_config e (config a)) = Inr cfg"
  shows "\<exists>pe. OnFitEnd pe \<in> set (snd (main e a))
       \<and> (\<forall>pe'. OnFitEnd pe' \<in> set (snd (main e a)) \<longrightarrow> pe' = pe)
       \<and> fst (main e a) = on_fit_end pe
       \<and> pe_measurements pe = map (elapsed e) [0..<length (main_dataloader e a pl cfg)]
       \<and> pe_ignore_steps pe = ignore_steps a
       \<and> pe_dp_world_size pe = getattr_dp_size e pl
       \<and> (main_dataloader e a pl cfg \<noteq> [] \<longrightarrow>
            pe_shape pe = (if use_pipeline pl a then (batch_size a, max_length a)
                           else input_ids (last (main_dataloader e a pl cfg))))"
proof -
  define dl where "dl = main_dataloader e a pl cfg"
  define pe where "pe = fst (run_loop e a pl (make_evaluator e a (getattr_dp_size e pl) cfg) dl)"
  have dl: "prepare_dataloader e pl (make_dataset a (getattr_dp_size e pl) cfg)
     (batch_size a) True True = dl"
    by (simp add: dl_def main_dataloader_def)
  have 0: "OnFitEnd pe \<in> set (snd (main e a))"
    by (simp add: main_ok_trace [OF pl cfg] dl pe_def)
  have u: "pe' = pe" if "OnFitEnd pe' \<in> set (snd (main e a))" for pe'
    using main_fit_end_event [OF that pl] cfg by (simp add: dl pe_def)
  have 1: "fst (main e a) = on_fit_end pe"
    by (simp add: main_ok_result [OF pl cfg] dl pe_def)
  have 2: "pe_measurements pe = map (elapsed e) [0..<length dl]"
    by (simp add: pe_def run_loop_measurements make_evaluator_fields)
  have 3: "pe_ignore_steps pe = ignore_steps a" "pe_dp_world_size pe = getattr_dp_size e pl"
    by (simp_all add: pe_def run_loop_ignore_steps run_loop_dp_world_size make_evaluator_fields)
  have 4: "pe_shape pe = (if use_pipeline pl a then (batch_size a, max_length a)
                           else input_ids (last dl))" if "dl \<noteq> []"
    using that by (simp add: pe_def run_loop_shape)
  from 0 u 1 2 3 4 show ?thesis unfolding dl_def [symmetric] by blast
qed

lemma retained_steps_empty_dl: "retained_steps a 0 = []"
  by (simp add: retained_steps_def)

lemma main_ok_value:
  assumes pl: "select_plugin (cuda_is_available e) a = Inr pl"
    and cfg: "fst (resolve_config e (config a)) = Inr cfg"
  shows "fst (main e a) =
     (let dl = main_dataloader e a pl cfg;
          W = retained_steps a (length dl);
          T = sum_list (map (step_time e) W);
          shp = (if use_pipeline pl a then (batch_size a, max_length a) else input_ids (last dl))
      in if W = [] \<or> T = 0 then Inl ZeroDivisionError
         else Inr \<lparr> mean_step_time = T / of_nat (length W),
                    tokens_per_sec =
                      of_int (fst shp * snd shp * int (length W)) / T
                        * of_int (getattr_dp_size e pl) \<rparr>)"
proof -
  define dl where "dl = main_dataloader e a pl cfg"
  define W where "W = retained_steps a (length dl)"
  from main_ok_final [OF pl cfg] obtain pe where
    fit: "fst (main e a) = on_fit_end pe" and
    m: "pe_measurements pe = map (elapsed e) [0..<length dl]" and
    i: "pe_ignore_steps pe = ignore_steps a" and
    d: "pe_dp_world_size pe = getattr_dp_size e pl" and
    sh: "dl \<noteq> [] \<longrightarrow> pe_shape pe = (if use_pipeline pl a then (batch_size a, max_length a)
                           else input_ids (last dl))"
    unfolding dl_def by blast
  note r = retained_map_elapsed [OF m i]
  show ?thesis
  proof (cases "W = []")
    case True
    then show ?thesis
      by (simp add: fit on_fit_end_def Let_def r dl_def [symmetric] W_def [symmetric])
  next
    case False
    then have "dl \<noteq> []" by (auto simp: W_def retained_steps_empty_dl)
    with sh have "pe_shape pe = (if use_pipeline pl a then (batch_size a, max_length a)
                           else input_ids (last dl))" by simp
    with False show ?thesis
      by (simp add: fit on_fit_end_def Let_def r d dl_def [symmetric] W_def [symmetric])
  qed
qed


lemma sample_step_time: "step_time sample_env i = 3"
  by (simp add: step_time_def sample_env_def)


lemma retained_steps_2_of_5: "ignore_steps a = 2 \<Longrightarrow> retained_steps a 5 = [2, 3, 4]"
  by (simp add: retained_steps_def upt_5)



lemma sample_main_dataloader:
  "main_dataloader sample_env default_args sample_plugin sample_config =
     replicate 5 (Batch (2, 4096))"
  by (simp add: main_dataloader_def sample_dataloader')

lemma pipeline_main_dataloader:
  "main_dataloader sample_env pipeline_args sample_hybrid_plugin sample_config =
     replicate 5 (Batch (2, 4096))"
  by (simp add: main_dataloader_def pipeline_dataloader)









lemma args_fields:
  "ignore_steps default_args = 2" "num_steps default_args = 5"
  "batch_size default_args = 2" "max_length default_args = 4096"
  "ignore_steps pipeline_args = 2" "num_steps pipeline_args = 5"
  "batch_size pipeline_args = 2" "max_length pipeline_args = 4096"
  "ignore_steps zero_length_args = 2" "num_steps zero_length_args = 5"
  "batch_size zero_length_args = 2" "max_length zero_length_args = 0"
  "ignore_steps warmup_only_args = 5" "num_steps warmup_only_args = 5"
  by (simp_all add: default_args_def pipeline_args_def zero_length_args_def warmup_only_args_def)

lemma sample_hybrid_use_pipeline:
  "use_pipeline sample_hybrid_plugin pipeline_args"
  "use_pipeline sample_hybrid_plugin zero_length_args"
  by (simp_all add: use_pipeline_def sample_hybrid_plugin_def pipeline_args_def
      zero_length_args_def default_args_def)

lemma sample_hybrid_dp_size: "getattr_dp_size sample_env sample_hybrid_plugin = 2"
  by (simp add: getattr_dp_size_def sample_env_def sample_hybrid_plugin_def)
















section \<open>Properties\<close>

subsection \<open>Strategy selection\<close>

text \<open>
  Claim C1. For every \<^verbatim>\<open>--plugin\<close> value outside the supported set the run ends
  with a fatal error that names the value, and the trace is empty: the error comes from
  \<^verbatim>\<open>parse_args\<close>, before the distributed launch, the coordinator, the plugin, the
  dataset and the model. The script's own guard (line 190) rejects the same values.
\<close>

theorem unknown_plugin_is_fatal:
  "plugin a \<notin> set plugin_choices \<Longrightarrow>
     main e a = (Inl (ArgparseInvalidChoice ''-p/--plugin'' (plugin a)), [])
     \<and> select_plugin c a = Inl (ValueError (''Unknown plugin '' @ plugin a))"
  by (simp add: main_unsupported select_plugin_unsupported)

theorem unknown_plugin_is_fatal_witness:
  "plugin (default_args\<lparr>plugin := ''ddp''\<rparr>) \<notin> set plugin_choices
   \<and> main sample_env (default_args\<lparr>plugin := ''ddp''\<rparr>)
       = (Inl (ArgparseInvalidChoice ''-p/--plugin'' ''ddp''), [])
   \<and> select_plugin True (default_args\<lparr>plugin := ''ddp''\<rparr>)
       = Inl (ValueError ''Unknown plugin ddp'')"
proof -
  have h: "plugin (default_args\<lparr>plugin := ''ddp''\<rparr>) \<notin> set plugin_choices"
    by (simp add: plugin_choices_def)
  from unknown_plugin_is_fatal [OF h, of sample_env True] h show ?thesis
    by simp
qed

text \<open>
  Claim C2. For every supported \<^verbatim>\<open>--plugin\<close> value, strategy selection returns a
  plugin object, and the run constructs it and hands that same object to the booster,
  right after the launch and the coordinator.
\<close>

theorem supported_plugin_reaches_booster:
  assumes "plugin a \<in> set plugin_choices"
  shows "\<exists>pl rest. select_plugin (cuda_is_available e) a = Inr pl
           \<and> snd (main e a) =
               [LaunchFromTorch, NewDistCoordinator, NewPlugin pl, NewBooster pl] @ rest"
proof -
  from assms obtain pl where pl: "select_plugin (cuda_is_available e) a = Inr pl"
    using select_plugin_supported by blast
  obtain rest where "snd (main e a) =
      [LaunchFromTorch, NewDistCoordinator, NewPlugin pl, NewBooster pl] @ rest"
    using main_run_prefix [of e a pl] main_supported [OF assms pl] by metis
  with pl show ?thesis by blast
qed

theorem supported_plugin_reaches_booster_witness:
  "plugin default_args \<in> set plugin_choices
   \<and> (\<exists>pl rest. select_plugin (cuda_is_available sample_env) default_args = Inr pl
         \<and> cls pl = GeminiPlugin
         \<and> snd (main sample_env default_args) =
             [LaunchFromTorch, NewDistCoordinator, NewPlugin pl, NewBooster pl] @ rest)"
proof -
  have h: "plugin default_args \<in> set plugin_choices"
    by (simp add: plugin_choices_def default_args_def)
  have c: "cuda_is_available sample_env = True"
    by (simp add: sample_env_def)
  from supported_plugin_reaches_booster [OF h, of sample_env] h show ?thesis
    unfolding c sample_gemini by (auto simp: sample_plugin_def)
qed

subsection \<open>The synthetic dataset\<close>

text \<open>
  Claim C3. Whenever a run constructs the synthetic dataset, its number of samples is
  exactly \<^verbatim>\<open>batch_size * num_steps * dp_size\<close>, with \<^verbatim>\<open>dp_size\<close> the
  data-parallel size of the selected plugin; and every run with a supported plugin
  whose configuration resolves does construct it.
\<close>

theorem dataset_length:
  "(NewRandomDataset ds \<in> set (snd (main e a)) \<longrightarrow>
      (\<exists>pl. select_plugin (cuda_is_available e) a = Inr pl
         \<and> num_samples ds = batch_size a * num_steps a * getattr_dp_size e pl))
   \<and> (plugin a \<in> set plugin_choices \<and> fst (resolve_config e (config a)) = Inr cfg \<longrightarrow>
      (\<exists>ds. NewRandomDataset ds \<in> set (snd (main e a))))"
proof (intro conjI impI)
  assume ev: "NewRandomDataset ds \<in> set (snd (main e a))"
  then obtain pl where pl: "select_plugin (cuda_is_available e) a = Inr pl"
    by (rule main_trace_cases)
  from main_dataset_event [OF ev pl] obtain cfg' where
    "ds = make_dataset a (getattr_dp_size e pl) cfg'" by blast
  then have "num_samples ds = batch_size a * num_steps a * getattr_dp_size e pl"
    by (simp add: make_dataset_def)
  with pl show "\<exists>pl. select_plugin (cuda_is_available e) a = Inr pl
         \<and> num_samples ds = batch_size a * num_steps a * getattr_dp_size e pl"
    by blast
next
  assume h: "plugin a \<in> set plugin_choices \<and> fst (resolve_config e (config a)) = Inr cfg"
  then obtain pl where pl: "select_plugin (cuda_is_available e) a = Inr pl"
    using select_plugin_supported by blast
  from h have cfg: "fst (resolve_config e (config a)) = Inr cfg" by simp
  show "\<exists>ds. NewRandomDataset ds \<in> set (snd (main e a))"
    by (rule exI [of _ "make_dataset a (getattr_dp_size e pl) cfg"])
       (simp add: main_ok_trace [OF pl cfg])
qed

theorem dataset_length_witness:
  "NewRandomDataset \<lparr> num_samples = 20, ds_max_length = 4096, ds_vocab_size = 32000 \<rparr>
     \<in> set (snd (main sample_env default_args))
   \<and> plugin default_args \<in> set plugin_choices
   \<and> fst (resolve_config sample_env (config default_args)) = Inr sample_config
   \<and> batch_size default_args * num_steps default_args * getattr_dp_size sample_env sample_plugin = 20
   \<and> (\<exists>pl. select_plugin (cuda_is_available sample_env) default_args = Inr pl
         \<and> num_samples \<lparr> num_samples = 20, ds_max_length = 4096, ds_vocab_size = 32000 \<rparr>
             = batch_size default_args * num_steps default_args * getattr_dp_size sample_env pl)
   \<and> (\<exists>ds. NewRandomDataset ds \<in> set (snd (main sample_env default_args)))"
proof -
  have p: "plugin default_args \<in> set plugin_choices"
    by (simp add: default_args_def plugin_choices_def)
  have n: "batch_size default_args * num_steps default_args * getattr_dp_size sample_env sample_plugin = 20"
    by (simp add: sample_dp_size default_args_def)
  from dataset_length [of "\<lparr> num_samples = 20, ds_max_length = 4096, ds_vocab_size = 32000 \<rparr>"
      sample_env default_args sample_config]
    sample_trace_dataset p sample_resolve_fst n
  show ?thesis by blast
qed

subsection \<open>The data-parallel size\<close>

text \<open>
  Claim C8. The data-parallel size that sizes the dataset and that the evaluator scales
  the throughput by is one value: the \<^verbatim>\<open>dp_size\<close> attribute of the plugin
  object when it has one, the world size of the coordinator otherwise. The plugin
  object is a \<^verbatim>\<open>TorchFSDPPlugin\<close> exactly for the names \<^verbatim>\<open>fsdp\<close> and
  \<^verbatim>\<open>fsdp_cpu\<close>.
\<close>

theorem dp_size_source:
  assumes "select_plugin (cuda_is_available e) a = Inr pl"
  shows "(NewRandomDataset ds \<in> set (snd (main e a)) \<longrightarrow>
            num_samples ds = batch_size a * num_steps a *
              (case dp_size_attr e pl of Some d \<Rightarrow> d | None \<Rightarrow> world_size e))
       \<and> (NewPerformanceEvaluator pe \<in> set (snd (main e a)) \<longrightarrow>
            pe_dp_world_size pe = (case dp_size_attr e pl of Some d \<Rightarrow> d | None \<Rightarrow> world_size e))
       \<and> (OnFitEnd pe' \<in> set (snd (main e a)) \<longrightarrow>
            pe_dp_world_size pe' = (case dp_size_attr e pl of Some d \<Rightarrow> d | None \<Rightarrow> world_size e))
       \<and> (cls pl = TorchFSDPPlugin \<longleftrightarrow> plugin a = ''fsdp'' \<or> plugin a = ''fsdp_cpu'')"
proof (intro conjI impI)
  assume "NewRandomDataset ds \<in> set (snd (main e a))"
  from main_dataset_event [OF this assms]
  show "num_samples ds = batch_size a * num_steps a *
      (case dp_size_attr e pl of Some d \<Rightarrow> d | None \<Rightarrow> world_size e)"
    by (auto simp: make_dataset_def getattr_dp_size_def)
next
  assume "NewPerformanceEvaluator pe \<in> set (snd (main e a))"
  from main_evaluator_event [OF this assms]
  show "pe_dp_world_size pe = (case dp_size_attr e pl of Some d \<Rightarrow> d | None \<Rightarrow> world_size e)"
    by (auto simp: make_evaluator_def new_PerformanceEvaluator_def getattr_dp_size_def)
next
  assume "OnFitEnd pe' \<in> set (snd (main e a))"
  from main_fit_end_event [OF this assms]
  show "pe_dp_world_size pe' = (case dp_size_attr e pl of Some d \<Rightarrow> d | None \<Rightarrow> world_size e)"
    by (auto simp: run_loop_dp_world_size make_evaluator_def new_PerformanceEvaluator_def
        getattr_dp_size_def)
next
  show "cls pl = TorchFSDPPlugin \<longleftrightarrow> plugin a = ''fsdp'' \<or> plugin a = ''fsdp_cpu''"
    using select_plugin_class [OF assms] by auto
qed

theorem dp_size_source_witness:
  "select_plugin (cuda_is_available sample_env) default_args = Inr sample_plugin
   \<and> NewRandomDataset \<lparr> num_samples = 20, ds_max_length = 4096, ds_vocab_size = 32000 \<rparr>
       \<in> set (snd (main sample_env default_args))
   \<and> NewPerformanceEvaluator sample_evaluator \<in> set (snd (main sample_env default_args))
   \<and> OnFitEnd sample_final_evaluator \<in> set (snd (main sample_env default_args))
   \<and> dp_size_attr sample_env sample_plugin = Some 2
   \<and> (20::int) = batch_size default_args * num_steps default_args * 2
   \<and> pe_dp_world_size sample_evaluator = 2
   \<and> pe_dp_world_size sample_final_evaluator = 2
   \<and> cls sample_plugin \<noteq> TorchFSDPPlugin
   \<and> select_plugin (cuda_is_available sample_env) fsdp_args = Inr sample_fsdp_plugin
   \<and> NewRandomDataset \<lparr> num_samples = 40, ds_max_length = 4096, ds_vocab_size = 32000 \<rparr>
       \<in> set (snd (main sample_env fsdp_args))
   \<and> dp_size_attr sample_env sample_fsdp_plugin = None
   \<and> world_size sample_env = 4
   \<and> (40::int) = batch_size fsdp_args * num_steps fsdp_args * world_size sample_env
   \<and> cls sample_fsdp_plugin = TorchFSDPPlugin"
proof -
  have d: "dp_size_attr sample_env sample_plugin = Some 2"
    "dp_size_attr sample_env sample_fsdp_plugin = None" "world_size sample_env = 4"
    by (simp_all add: sample_env_def sample_plugin_def sample_fsdp_plugin_def)
  from dp_size_source [OF sample_select,
      of "\<lparr> num_samples = 20, ds_max_length = 4096, ds_vocab_size = 32000 \<rparr>"
         sample_evaluator sample_final_evaluator]
    dp_size_source [OF fsdp_select,
      of "\<lparr> num_samples = 40, ds_max_length = 4096, ds_vocab_size = 32000 \<rparr>"]
    sample_select sample_trace_dataset sample_trace_evaluator sample_trace_fit_end
    fsdp_select fsdp_trace_dataset d
  show ?thesis
    by (simp add: default_args_def fsdp_args_def sample_evaluator_def sample_final_evaluator_def
        sample_plugin_def sample_fsdp_plugin_def)
qed

subsection \<open>Configuration resolution\<close>

text \<open>
  Claim C9. The script never rejects a \<^verbatim>\<open>--config\<close> value itself. A built-in tag
  (\<^verbatim>\<open>7b\<close>, \<^verbatim>\<open>13b\<close>, \<^verbatim>\<open>70b\<close>) selects its predefined
  \<^verbatim>\<open>LlamaConfig\<close> and makes no external call. Any other value is passed unchanged
  to \<^verbatim>\<open>AutoConfig.from_pretrained\<close> with \<^verbatim>\<open>trust_remote_code=True\<close>, and the
  only error that configuration resolution can end with is the one that call raises.
\<close>

theorem config_never_locally_rejected:
  "(map_of MODEL_CONFIGS c = Some kw \<longrightarrow> resolve_config e c = (Inr (LlamaConfig e kw), []))
   \<and> dom (map_of MODEL_CONFIGS) = {''7b'', ''13b'', ''70b''}
   \<and> (c \<notin> {''7b'', ''13b'', ''70b''} \<longrightarrow>
        resolve_config e c =
          (case from_pretrained e c True of
             Inl msg \<Rightarrow> Inl (ExternalError msg) | Inr cfg \<Rightarrow> Inr cfg,
           [AutoConfigFromPretrained c True]))
   \<and> (fst (resolve_config e c) = Inl err \<longrightarrow>
        c \<notin> {''7b'', ''13b'', ''70b''}
        \<and> (\<exists>msg. err = ExternalError msg \<and> from_pretrained e c True = Inl msg))
   \<and> (AutoConfigFromPretrained c' t \<in> set (snd (main e a)) \<longrightarrow>
        c' = config a \<and> t = True \<and> config a \<notin> {''7b'', ''13b'', ''70b''})
   \<and> (plugin a \<in> set plugin_choices \<and> config a \<notin> {''7b'', ''13b'', ''70b''}
        \<and> from_pretrained e (config a) True = Inl m \<longrightarrow>
        fst (main e a) = Inl (ExternalError m)
        \<and> AutoConfigFromPretrained (config a) True \<in> set (snd (main e a)))"
proof (intro conjI impI)
  assume h: "plugin a \<in> set plugin_choices \<and> config a \<notin> {''7b'', ''13b'', ''70b''}
        \<and> from_pretrained e (config a) True = Inl m"
  then obtain pl where pl: "select_plugin (cuda_is_available e) a = Inr pl"
    using select_plugin_supported by blast
  from h have r: "resolve_config e (config a) =
      (Inl (ExternalError m), [AutoConfigFromPretrained (config a) True])"
    by (simp add: resolve_config_other)
  then have "fst (resolve_config e (config a)) = Inl (ExternalError m)" by simp
  from main_config_error [OF pl this] r
  show "fst (main e a) = Inl (ExternalError m)"
    and "AutoConfigFromPretrained (config a) True \<in> set (snd (main e a))"
    by simp_all
qed (auto simp: resolve_config_builtin builtin_tags resolve_config_other
      dest: resolve_config_error main_from_pretrained_event)

theorem config_never_locally_rejected_witness:
  "map_of MODEL_CONFIGS ''13b'' =
      Some [(''hidden_size'', VInt 5120),
            (''intermediate_size'', VInt 13824),
            (''num_hidden_layers'', VInt 40),
            (''num_attention_heads'', VInt 40),
            (''max_position_embeddings'', VInt 4096)]
   \<and> resolve_config sample_env ''13b'' = (Inr sample_config, [])
   \<and> ''org/model'' \<notin> {''7b'', ''13b'', ''70b''}
   \<and> resolve_config sample_env ''org/model'' =
       (Inl (ExternalError ''not found''), [AutoConfigFromPretrained ''org/model'' True])
   \<and> plugin unknown_config_args \<in> set plugin_choices
   \<and> config unknown_config_args = ''org/model''
   \<and> from_pretrained sample_env ''org/model'' True = Inl ''not found''
   \<and> fst (main sample_env unknown_config_args) = Inl (ExternalError ''not found'')
   \<and> AutoConfigFromPretrained ''org/model'' True \<in> set (snd (main sample_env unknown_config_args))"
proof -
  have p: "plugin unknown_config_args \<in> set plugin_choices"
    and c: "config unknown_config_args = ''org/model''"
    by (simp_all add: unknown_config_args_def default_args_def plugin_choices_def)
  have f: "from_pretrained sample_env ''org/model'' True = Inl ''not found''"
    by (simp add: sample_env_def)
  have l: "LlamaConfig sample_env kw = sample_config" for kw
    by (simp add: sample_env_def sample_config_def)
  have n: "''org/model'' \<notin> {''7b'', ''13b'', ''70b''}" by simp
  from config_never_locally_rejected [of "''13b''" _ sample_env "ExternalError ''not found''"
      "''org/model''" True unknown_config_args "''not found''"]
    config_never_locally_rejected [of "''org/model''" "[]" sample_env "ExternalError ''not found''"
      "''org/model''" True unknown_config_args "''not found''"]
    sample_13b p c f n
  show ?thesis by (simp add: l)
qed

subsection \<open>The two step loops\<close>

text \<open>
  Claim C10. The pipeline loop runs if and only if the plugin object is a
  \<^verbatim>\<open>HybridParallelPlugin\<close> (the names \<^verbatim>\<open>3d\<close> and \<^verbatim>\<open>3d_cpu\<close>) and
  \<^verbatim>\<open>--pp\<close> is greater than 1. In that loop every \<^verbatim>\<open>on_step_end\<close> receives an
  empty tensor of shape \<^verbatim>\<open>(batch_size, max_length)\<close>; in the plain loop it receives
  the batch that the step ran forward on.
\<close>

theorem pipeline_path:
  assumes "select_plugin (cuda_is_available e) a = Inr pl"
  shows "(use_pipeline pl a \<longleftrightarrow> cls pl = HybridParallelPlugin \<and> pp a > 1)
     \<and> (cls pl = HybridParallelPlugin \<longleftrightarrow> plugin a = ''3d'' \<or> plugin a = ''3d_cpu'')
     \<and> run_loop e a pl pe dl =
         (if cls pl = HybridParallelPlugin \<and> pp a > 1 then pipeline_loop e a pe (length dl)
          else plain_loop e pe dl)
     \<and> (ExecutePipeline \<in> set (snd (main e a)) \<longrightarrow> cls pl = HybridParallelPlugin \<and> pp a > 1)
     \<and> (Forward b \<in> set (snd (main e a)) \<longrightarrow> \<not> (cls pl = HybridParallelPlugin \<and> pp a > 1))
     \<and> (OnStepEnd inp \<in> set (snd (main e a)) \<longrightarrow>
          (if cls pl = HybridParallelPlugin \<and> pp a > 1
           then inp = EmptyTensor (batch_size a) (max_length a)
           else \<exists>b. inp = ActualBatch b \<and> Forward b \<in> set (snd (main e a))))"
proof (intro conjI impI)
  show "use_pipeline pl a \<longleftrightarrow> cls pl = HybridParallelPlugin \<and> pp a > 1"
    by (simp add: use_pipeline_def)
  show "cls pl = HybridParallelPlugin \<longleftrightarrow> plugin a = ''3d'' \<or> plugin a = ''3d_cpu''"
    using select_plugin_class [OF assms] select_plugin_Inr [OF assms]
    by (auto simp: plugin_choices_def)
  show "run_loop e a pl pe dl =
         (if cls pl = HybridParallelPlugin \<and> pp a > 1 then pipeline_loop e a pe (length dl)
          else plain_loop e pe dl)"
    by (simp add: run_loop_def use_pipeline_def)
next
  assume "ExecutePipeline \<in> set (snd (main e a))"
  from main_loop_event [OF this _ assms]
  show "cls pl = HybridParallelPlugin" and "pp a > 1"
    by (auto simp: is_loop_event_def run_loop_def use_pipeline_def plain_loop_no_pipeline
        split: if_splits)
next
  assume "Forward b \<in> set (snd (main e a))"
  from main_loop_event [OF this _ assms]
  show "\<not> (cls pl = HybridParallelPlugin \<and> pp a > 1)"
    by (auto simp: is_loop_event_def run_loop_def use_pipeline_def pipeline_loop_no_forward
        split: if_splits)
next
  assume ev: "OnStepEnd inp \<in> set (snd (main e a))"
  from main_loop_event [OF this _ assms] obtain cfg where
    cfg: "fst (resolve_config e (config a)) = Inr cfg" and
    lp: "OnStepEnd inp \<in> set (snd (run_loop e a pl (make_evaluator e a (getattr_dp_size e pl) cfg)
            (prepare_dataloader e pl (make_dataset a (getattr_dp_size e pl) cfg) (batch_size a) True True)))"
    by (auto simp: is_loop_event_def)
  show "if cls pl = HybridParallelPlugin \<and> pp a > 1
           then inp = EmptyTensor (batch_size a) (max_length a)
           else \<exists>b. inp = ActualBatch b \<and> Forward b \<in> set (snd (main e a))"
  proof (cases "cls pl = HybridParallelPlugin \<and> pp a > 1")
    case True
    with lp show ?thesis
      by (auto simp: run_loop_def use_pipeline_def dest: pipeline_loop_step_end)
  next
    case False
    with lp obtain b where "inp = ActualBatch b"
      and "Forward b \<in> set (snd (run_loop e a pl (make_evaluator e a (getattr_dp_size e pl) cfg)
            (prepare_dataloader e pl (make_dataset a (getattr_dp_size e pl) cfg) (batch_size a) True True)))"
      by (auto simp: run_loop_def use_pipeline_def dest: plain_loop_step_end)
    then have "inp = ActualBatch b \<and> Forward b \<in> set (snd (main e a))"
      by (simp add: main_ok_trace [OF assms cfg])
    with False show ?thesis by auto
  qed
qed

theorem pipeline_path_witness:
  "select_plugin (cuda_is_available sample_env) pipeline_args = Inr sample_hybrid_plugin
   \<and> cls sample_hybrid_plugin = HybridParallelPlugin \<and> pp pipeline_args > 1
   \<and> use_pipeline sample_hybrid_plugin pipeline_args
   \<and> ExecutePipeline \<in> set (snd (main sample_env pipeline_args))
   \<and> OnStepEnd (EmptyTensor 2 4096) \<in> set (snd (main sample_env pipeline_args))
   \<and> EmptyTensor 2 4096 = EmptyTensor (batch_size pipeline_args) (max_length pipeline_args)
   \<and> select_plugin (cuda_is_available sample_env) default_args = Inr sample_plugin
   \<and> cls sample_plugin \<noteq> HybridParallelPlugin
   \<and> \<not> use_pipeline sample_plugin default_args
   \<and> Forward (Batch (2, 4096)) \<in> set (snd (main sample_env default_args))
   \<and> OnStepEnd (ActualBatch (Batch (2, 4096))) \<in> set (snd (main sample_env default_args))
   \<and> ExecutePipeline \<notin> set (snd (main sample_env default_args))"
proof -
  have c: "cls sample_hybrid_plugin = HybridParallelPlugin" "pp pipeline_args > 1"
    "cls sample_plugin \<noteq> HybridParallelPlugin"
    "batch_size pipeline_args = 2" "max_length pipeline_args = 4096"
    by (simp_all add: sample_hybrid_plugin_def sample_plugin_def pipeline_args_def default_args_def)
  from pipeline_path [OF pipeline_select, of undefined "[]" "Batch (2, 4096)" "EmptyTensor 2 4096"]
    pipeline_path [OF sample_select, of undefined "[]" "Batch (2, 4096)" "ActualBatch (Batch (2, 4096))"]
    pipeline_select sample_select pipeline_trace_events sample_trace_events c
  show ?thesis by auto
qed

subsection \<open>The measurement window\<close>




subsection \<open>The reported throughput\<close>

text \<open>
  Claim C5. The result of a run whose plugin is supported and whose configuration
  resolves is determined by the dataloader, \<^verbatim>\<open>ignore_steps\<close>, the step times and
  the data-parallel size. On completion the tokens per second it reports are batch size
  times sequence length times the number of retained steps, over the total wall time
  of the retained steps, times the data-parallel size; a step is retained when its
  index is at least \<^verbatim>\<open>ignore_steps\<close>. Batch size and sequence length are
  \<^verbatim>\<open>batch_size\<close> and \<^verbatim>\<open>max_length\<close> in the pipeline loop, and those of
  the batch reported last in the plain loop, which are \<^verbatim>\<open>batch_size\<close> and
  \<^verbatim>\<open>max_length\<close> again when the batches have that shape.
\<close>

theorem reported_throughput:
  assumes "select_plugin (cuda_is_available e) a = Inr pl"
    and "fst (resolve_config e (config a)) = Inr cfg"
  shows "fst (main e a) =
     (let dl = main_dataloader e a pl cfg;
          W = retained_steps a (length dl);
          T = sum_list (map (step_time e) W);
          shp = (if use_pipeline pl a then (batch_size a, max_length a) else input_ids (last dl))
      in if W = [] \<or> T = 0 then Inl ZeroDivisionError
         else Inr \<lparr> mean_step_time = T / of_nat (length W),
                    tokens_per_sec =
                      of_int (fst shp * snd shp * int (length W)) / T
                        * of_int (getattr_dp_size e pl) \<rparr>)
   \<and> ((use_pipeline pl a
         \<or> input_ids (last (main_dataloader e a pl cfg)) = (batch_size a, max_length a))
        \<and> retained_steps a (length (main_dataloader e a pl cfg)) \<noteq> []
        \<and> sum_list (map (step_time e)
              (retained_steps a (length (main_dataloader e a pl cfg)))) \<noteq> 0
       \<longrightarrow> (\<exists>s. fst (main e a) = Inr s
              \<and> tokens_per_sec s =
                  of_int (batch_size a * max_length a
                    * int (length (retained_steps a (length (main_dataloader e a pl cfg)))))
                  / sum_list (map (step_time e)
                      (retained_steps a (length (main_dataloader e a pl cfg))))
                  * of_int (getattr_dp_size e pl)))"
proof (intro conjI impI)
  show "fst (main e a) =
     (let dl = main_dataloader e a pl cfg;
          W = retained_steps a (length dl);
          T = sum_list (map (step_time e) W);
          shp = (if use_pipeline pl a then (batch_size a, max_length a) else input_ids (last dl))
      in if W = [] \<or> T = 0 then Inl ZeroDivisionError
         else Inr \<lparr> mean_step_time = T / of_nat (length W),
                    tokens_per_sec =
                      of_int (fst shp * snd shp * int (length W)) / T
                        * of_int (getattr_dp_size e pl) \<rparr>)"
    using assms by (rule main_ok_value)
next
  assume h: "(use_pipeline pl a
         \<or> input_ids (last (main_dataloader e a pl cfg)) = (batch_size a, max_length a))
        \<and> retained_steps a (length (main_dataloader e a pl cfg)) \<noteq> []
        \<and> sum_list (map (step_time e)
              (retained_steps a (length (main_dataloader e a pl cfg)))) \<noteq> 0"
  then have shp: "(if use_pipeline pl a then (batch_size a, max_length a)
      else input_ids (last (main_dataloader e a pl cfg))) = (batch_size a, max_length a)"
    by auto
  from h show "\<exists>s. fst (main e a) = Inr s
              \<and> tokens_per_sec s =
                  of_int (batch_size a * max_length a
                    * int (length (retained_steps a (length (main_dataloader e a pl cfg)))))
                  / sum_list (map (step_time e)
                      (retained_steps a (length (main_dataloader e a pl cfg))))
                  * of_int (getattr_dp_size e pl)"
    by (simp add: main_ok_value [OF assms] Let_def shp)
qed

theorem reported_throughput_witness:
  "select_plugin (cuda_is_available sample_env) default_args = Inr sample_plugin
   \<and> fst (resolve_config sample_env (config default_args)) = Inr sample_config
   \<and> \<not> use_pipeline sample_plugin default_args
   \<and> main_dataloader sample_env default_args sample_plugin sample_config
       = replicate 5 (Batch (2, 4096))
   \<and> retained_steps default_args 5 = [2, 3, 4]
   \<and> getattr_dp_size sample_env sample_plugin = 2
   \<and> fst (main sample_env default_args)
       = Inr \<lparr> mean_step_time = 9 / 3, tokens_per_sec = of_int (2 * 4096 * 3) / 9 * 2 \<rparr>
   \<and> select_plugin (cuda_is_available sample_env) pipeline_args = Inr sample_hybrid_plugin
   \<and> fst (resolve_config sample_env (config pipeline_args)) = Inr sample_config
   \<and> use_pipeline sample_hybrid_plugin pipeline_args
   \<and> main_dataloader sample_env pipeline_args sample_hybrid_plugin sample_config
       = replicate 5 (Batch (2, 4096))
   \<and> retained_steps pipeline_args 5 = [2, 3, 4]
   \<and> getattr_dp_size sample_env sample_hybrid_plugin = 2
   \<and> fst (main sample_env pipeline_args)
       = Inr \<lparr> mean_step_time = 9 / 3, tokens_per_sec = of_int (2 * 4096 * 3) / 9 * 2 \<rparr>"
proof -
  have w: "retained_steps default_args 5 = [2, 3, 4]" "retained_steps pipeline_args 5 = [2, 3, 4]"
    by (simp_all add: retained_steps_2_of_5 args_fields)
  have plain: "fst (main sample_env default_args)
       = Inr \<lparr> mean_step_time = 9 / 3, tokens_per_sec = of_int (2 * 4096 * 3) / 9 * 2 \<rparr>"
    using reported_throughput [OF sample_select sample_resolve_fst]
    by (simp add: Let_def sample_main_dataloader w sample_step_time sample_use_pipeline
        sample_dp_size)
  have pipe: "fst (main sample_env pipeline_args)
       = Inr \<lparr> mean_step_time = 9 / 3, tokens_per_sec = of_int (2 * 4096 * 3) / 9 * 2 \<rparr>"
    using reported_throughput [OF pipeline_select pipeline_resolve_fst]
    by (simp add: Let_def pipeline_main_dataloader w sample_step_time
        sample_hybrid_use_pipeline sample_hybrid_dp_size args_fields)
  show ?thesis
    by (intro conjI sample_select sample_resolve_fst sample_use_pipeline sample_main_dataloader
        w sample_dp_size plain pipeline_select pipeline_resolve_fst
        sample_hybrid_use_pipeline(1) pipeline_main_dataloader sample_hybrid_dp_size pipe)
qed




subsection \<open>The events of a step\<close>

text \<open>
  Claim C7. In both loops every step is the sequence: \<^verbatim>\<open>on_step_start\<close> with the
  step index, the compute of the step, \<^verbatim>\<open>on_step_end\<close>, and the profiler step;
  nothing stands between the evaluator calls and the compute. The evaluator appends one
  measurement per step, in step order, after those it already holds, and what it held
  after the first steps is a prefix of what it holds after more steps: no measurement
  changes once appended.
\<close>

theorem step_measurement_events:
  "snd (pipeline_loop e a pe n) =
     concat (map (\<lambda>i. [OnStepStart i, ExecutePipeline, OptimizerStep, OptimizerZeroGrad,
                        OnStepEnd (EmptyTensor (batch_size a) (max_length a)), ProfStep])
               [0..<n])
   \<and> snd (plain_loop e pe dl) =
     concat (map (\<lambda>(i, b). [OnStepStart i, Forward b, Backward, OptimizerStep,
                             OptimizerZeroGrad, OnStepEnd (ActualBatch b), ProfStep])
               (enumerate 0 dl))
   \<and> pe_measurements (fst (pipeline_loop e a pe n)) =
       pe_measurements pe @ map (elapsed e) [0..<n]
   \<and> pe_measurements (fst (plain_loop e pe dl)) =
       pe_measurements pe @ map (elapsed e) [0..<length dl]
   \<and> take (length (pe_measurements (fst (pipeline_loop e a pe n))))
        (pe_measurements (fst (pipeline_loop e a pe (n + k)))) =
       pe_measurements (fst (pipeline_loop e a pe n))
   \<and> take (length (pe_measurements (fst (plain_loop e pe dl))))
        (pe_measurements (fst (plain_loop e pe (dl @ dl')))) =
       pe_measurements (fst (plain_loop e pe dl))
   \<and> pe_measurements (on_step_start pe' step now) = pe_measurements pe'
   \<and> take (length (pe_measurements pe')) (pe_measurements (on_step_end pe' shp now)) =
       pe_measurements pe'"
proof (intro conjI)
  show "snd (pipeline_loop e a pe n) =
     concat (map (\<lambda>i. [OnStepStart i, ExecutePipeline, OptimizerStep, OptimizerZeroGrad,
                        OnStepEnd (EmptyTensor (batch_size a) (max_length a)), ProfStep])
               [0..<n])"
    by (simp add: pipeline_loop_trace pipeline_compute_def)
  show "snd (plain_loop e pe dl) =
     concat (map (\<lambda>(i, b). [OnStepStart i, Forward b, Backward, OptimizerStep,
                             OptimizerZeroGrad, OnStepEnd (ActualBatch b), ProfStep])
               (enumerate 0 dl))"
    by (simp add: plain_loop_trace plain_compute_def)
  show "pe_measurements (fst (pipeline_loop e a pe n)) =
       pe_measurements pe @ map (elapsed e) [0..<n]"
    by (rule pipeline_loop_measurements)
  show "pe_measurements (fst (plain_loop e pe dl)) =
       pe_measurements pe @ map (elapsed e) [0..<length dl]"
    by (rule plain_loop_measurements)
  show "take (length (pe_measurements (fst (pipeline_loop e a pe n))))
        (pe_measurements (fst (pipeline_loop e a pe (n + k)))) =
       pe_measurements (fst (pipeline_loop e a pe n))"
    by (simp add: pipeline_loop_measurements take_map)
  show "take (length (pe_measurements (fst (plain_loop e pe dl))))
        (pe_measurements (fst (plain_loop e pe (dl @ dl')))) =
       pe_measurements (fst (plain_loop e pe dl))"
    by (simp add: plain_loop_measurements take_map)
  show "pe_measurements (on_step_start pe' step now) = pe_measurements pe'"
    by (simp add: on_step_start_def)
  show "take (length (pe_measurements pe')) (pe_measurements (on_step_end pe' shp now)) =
       pe_measurements pe'"
    by (simp add: on_step_end_def split: option.splits)
qed

end
